theory Spec2Isabelle
  imports Main "HOL-Library.Sublist"
begin

section \<open>The shell script \<open>new_manual_update.sh\<close>\<close>

text \<open>
  The script (lines 1 to 17 of \<open>src/new_manual_update.sh\<close>) is run by \<open>/bin/bash\<close>:
  \<^verbatim>\<open>
  temp_date=$(date)
  temp_path=$(pwd)
  cd $temp_path && /usr/bin/git branch tmp
  cd $temp_path && /usr/bin/git checkout tmp
  cd $temp_path && /usr/bin/git add . --all
  cd $temp_path && /usr/bin/git commit -m "code on $temp_date"
  cd $temp_path && /usr/bin/git checkout master
  cd $temp_path && /usr/bin/git merge tmp
  cd $temp_path && /usr/bin/git push origin master
  cd $temp_path && /usr/bin/git branch -d tmp
  \<close>
  It is embedded as a value of a small command syntax, and run by an interpreter of the
  shell constructs it uses: assignment from a command substitution, simple commands, the
  \<open>&&\<close> list, parameter expansion outside and inside double quotes, field splitting,
  pathname expansion, and the builtins \<open>cd\<close> and \<open>pwd\<close>. Everything outside the shell
  (the programs it starts, the file system) is a parameter of the run, the \<open>world\<close>.
\<close>

subsection \<open>Syntax\<close>

text \<open>
  A word is a list of parts: literal text, an unquoted \<open>$name\<close>, and the two things that
  occur between double quotes, literal text and \<open>$name\<close>.
\<close>

datatype part = Lit string | Var string | QLit string | QVar string

type_synonym word = "part list"

datatype command =
    Simple "word list"
  | AssignSub string command
  | AndIf command command

text \<open>\<open>AssignSub x c\<close> is \<open>x=$(c)\<close>, and \<open>AndIf c1 c2\<close> is \<open>c1 && c2\<close>.\<close>

definition cd_temp_path :: command where
  "cd_temp_path = Simple [[Lit ''cd''], [Var ''temp_path'']]"

definition git :: "word list \<Rightarrow> command" where
  "git ws = Simple ([Lit ''/usr/bin/git''] # ws)"

definition script :: "command list" where
  "script =
    [ AssignSub ''temp_date'' (Simple [[Lit ''date'']]),
      AssignSub ''temp_path'' (Simple [[Lit ''pwd'']]),
      AndIf cd_temp_path (git [[Lit ''branch''], [Lit ''tmp'']]),
      AndIf cd_temp_path (git [[Lit ''checkout''], [Lit ''tmp'']]),
      AndIf cd_temp_path (git [[Lit ''add''], [Lit ''.''], [Lit ''--all'']]),
      AndIf cd_temp_path
        (git [[Lit ''commit''], [Lit ''-m''], [QLit ''code on '', QVar ''temp_date'']]),
      AndIf cd_temp_path (git [[Lit ''checkout''], [Lit ''master'']]),
      AndIf cd_temp_path (git [[Lit ''merge''], [Lit ''tmp'']]),
      AndIf cd_temp_path (git [[Lit ''push''], [Lit ''origin''], [Lit ''master'']]),
      AndIf cd_temp_path (git [[Lit ''branch''], [Lit ''-d''], [Lit ''tmp'']]) ]"

subsection \<open>The world and the shell's state\<close>

text \<open>
  The clock counts the simple commands the shell has run so far; the world answers by
  clock value, so that it may answer differently at different moments of one run.
  \<^item> \<open>w_exec t dir argv\<close>: exit status and standard output of the program \<open>argv\<close>
    started at time \<open>t\<close> in directory \<open>dir\<close> (status 127 when there is no such program);
  \<^item> \<open>w_dir_ok t dir target\<close>: whether changing from \<open>dir\<close> to \<open>target\<close> succeeds at \<open>t\<close>;
  \<^item> \<open>w_pwd_ok t dir\<close>: whether the shell can name its current directory \<open>dir\<close> at \<open>t\<close>
    (it cannot when it was started in a directory that had been removed);
  \<^item> \<open>w_glob t dir pattern\<close>: the sorted path names matching \<open>pattern\<close> at \<open>t\<close>;
  \<^item> \<open>w_env\<close>: the variables of the shell when the script starts, \<open>HOME\<close>, \<open>PWD\<close> and
    \<open>OLDPWD\<close> among them, as bash has set them up from its environment.
\<close>

record world =
  w_start_dir :: string
  w_env :: "string \<rightharpoonup> string"
  w_exec :: "nat \<Rightarrow> string \<Rightarrow> string list \<Rightarrow> nat \<times> string"
  w_dir_ok :: "nat \<Rightarrow> string \<Rightarrow> string \<Rightarrow> bool"
  w_pwd_ok :: "nat \<Rightarrow> string \<Rightarrow> bool"
  w_glob :: "nat \<Rightarrow> string \<Rightarrow> string \<Rightarrow> string list"

text \<open>Every simple command that runs leaves an event in the log.\<close>

record event =
  ev_clock :: nat
  ev_cwd :: string
  ev_argv :: "string list"
  ev_builtin :: bool
  ev_status :: nat

record shell =
  vars :: "string \<rightharpoonup> string"
  cwd :: string
  clock :: nat
  status :: nat
  out :: string
  log :: "event list"

definition init :: "world \<Rightarrow> shell" where
  "init w = \<lparr>vars = w_env w, cwd = w_start_dir w, clock = 0, status = 0,
     out = [], log = []\<rparr>"

subsection \<open>Expansion of words\<close>

text \<open>
  Each character of an expanded word remembers where it came from: only the result of an
  unquoted expansion is split into fields, and only unquoted characters are patterns.
  \<open>XNull\<close> marks a quoted part, which makes a field even when it is empty.
\<close>

datatype origin = OLit | OExp | OQuoted

datatype xchar = XC char origin | XNull

definition lookup :: "shell \<Rightarrow> string \<Rightarrow> string" where
  "lookup s x = (case vars s x of None \<Rightarrow> [] | Some v \<Rightarrow> v)"

fun expand_part :: "shell \<Rightarrow> part \<Rightarrow> xchar list" where
  "expand_part s (Lit t) = map (\<lambda>c. XC c OLit) t"
| "expand_part s (Var x) = map (\<lambda>c. XC c OExp) (lookup s x)"
| "expand_part s (QLit t) = XNull # map (\<lambda>c. XC c OQuoted) t"
| "expand_part s (QVar x) = XNull # map (\<lambda>c. XC c OQuoted) (lookup s x)"

definition ifs :: "char set" where
  "ifs = {CHR '' '', CHR 0x09, CHR 0x0A}"

definition cur_field :: "xchar list option \<Rightarrow> xchar list" where
  "cur_field cur = (case cur of None \<Rightarrow> [] | Some f \<Rightarrow> f)"

fun split_fields :: "xchar list \<Rightarrow> xchar list option \<Rightarrow> xchar list list" where
  "split_fields [] cur = (case cur of None \<Rightarrow> [] | Some f \<Rightarrow> [f])"
| "split_fields (XNull # xs) cur = split_fields xs (Some (cur_field cur))"
| "split_fields (XC c og # xs) cur =
     (if og = OExp \<and> c \<in> ifs
      then (case cur of None \<Rightarrow> split_fields xs None | Some f \<Rightarrow> f # split_fields xs None)
      else split_fields xs (Some (cur_field cur @ [XC c og])))"

fun untag :: "xchar list \<Rightarrow> string" where
  "untag [] = []"
| "untag (XNull # xs) = untag xs"
| "untag (XC c og # xs) = c # untag xs"

fun glob_active :: "xchar list \<Rightarrow> bool" where
  "glob_active [] = False"
| "glob_active (XNull # xs) = glob_active xs"
| "glob_active (XC c og # xs) =
     ((og \<noteq> OQuoted \<and> (c = CHR ''*'' \<or> c = CHR ''?'' \<or> c = CHR ''['')) \<or> glob_active xs)"

definition expand_path :: "world \<Rightarrow> shell \<Rightarrow> xchar list \<Rightarrow> string list" where
  "expand_path w s f =
     (if glob_active f
      then (case w_glob w (clock s) (cwd s) (untag f) of [] \<Rightarrow> [untag f] | ms \<Rightarrow> ms)
      else [untag f])"

definition expand_word :: "world \<Rightarrow> shell \<Rightarrow> word \<Rightarrow> string list" where
  "expand_word w s wd =
     concat (map (expand_path w s) (split_fields (concat (map (expand_part s) wd)) None))"

definition expand_words :: "world \<Rightarrow> shell \<Rightarrow> word list \<Rightarrow> string list" where
  "expand_words w s ws = concat (map (expand_word w s) ws)"

text \<open>A command substitution drops the newlines at the end of the output.\<close>

fun strip_newlines_rev :: "string \<Rightarrow> string" where
  "strip_newlines_rev [] = []"
| "strip_newlines_rev (c # cs) = (if c = CHR 0x0A then strip_newlines_rev cs else c # cs)"

definition strip_newlines :: "string \<Rightarrow> string" where
  "strip_newlines t = rev (strip_newlines_rev (rev t))"

subsection \<open>Builtins and programs\<close>

definition finish :: "shell \<Rightarrow> string list \<Rightarrow> bool \<Rightarrow> nat \<Rightarrow> shell \<Rightarrow> shell" where
  "finish s argv b st s' =
     s'\<lparr>clock := Suc (clock s), status := st,
        log := log s @ [\<lparr>ev_clock = clock s, ev_cwd = cwd s, ev_argv = argv,
                          ev_builtin = b, ev_status = st\<rparr>]\<rparr>"

text \<open>
  \<open>cd\<close> as bash 5 has it: options first (\<open>-L\<close>, \<open>-P\<close>, \<open>-e\<close>, \<open>-@\<close>, ended by \<open>--\<close>), then at
  most one operand; no operand means \<open>$HOME\<close>, the operand \<open>-\<close> means \<open>$OLDPWD\<close>; more
  than one operand is the error "too many arguments" (status 1), an unknown option an
  error of usage (status 2). A relative target is taken from the current directory
  (\<open>CDPATH\<close> is not modelled, and a path is kept as it is written). A \<open>cd\<close> that
  succeeds assigns two variables: \<open>OLDPWD\<close> gets the value of \<open>PWD\<close>, and \<open>PWD\<close> the new
  directory.
\<close>

datatype cd_args = CdBad nat | CdHome | CdBack | CdTo string

fun cd_parse :: "string list \<Rightarrow> cd_args" where
  "cd_parse [] = CdHome"
| "cd_parse (a # as) =
     (if a = ''--'' then (case as of [] \<Rightarrow> CdHome | [d] \<Rightarrow> (if d = ''-'' then CdBack else CdTo d) | _ \<Rightarrow> CdBad 1)
      else if a \<in> {''-L'', ''-P'', ''-e'', ''-@''} then cd_parse as
      else if a = ''-'' then (case as of [] \<Rightarrow> CdBack | _ \<Rightarrow> CdBad 1)
      else if a \<noteq> [] \<and> hd a = CHR ''-'' then CdBad 2
      else (case as of [] \<Rightarrow> CdTo a | _ \<Rightarrow> CdBad 1))"

definition resolve :: "string \<Rightarrow> string \<Rightarrow> string" where
  "resolve dir target =
     (if target = [] then dir
      else if hd target = CHR ''/'' then target
      else dir @ ''/'' @ target)"

definition chdir :: "world \<Rightarrow> shell \<Rightarrow> string list \<Rightarrow> string \<Rightarrow> bool \<Rightarrow> shell" where
  "chdir w s argv target echo =
     (if w_dir_ok w (clock s) (cwd s) target
      then finish s argv True 0
             (s\<lparr>vars := (vars s)(''OLDPWD'' \<mapsto> lookup s ''PWD'',
                                   ''PWD'' \<mapsto> resolve (cwd s) target),
                cwd := resolve (cwd s) target,
                out := out s @ (if echo then resolve (cwd s) target @ [CHR 0x0A] else [])\<rparr>)
      else finish s argv True 1 s)"

definition builtin_cd :: "world \<Rightarrow> string list \<Rightarrow> shell \<Rightarrow> shell" where
  "builtin_cd w args s =
     (case cd_parse args of
        CdBad st \<Rightarrow> finish s (''cd'' # args) True st s
      | CdHome \<Rightarrow>
          (case vars s ''HOME'' of
             None \<Rightarrow> finish s (''cd'' # args) True 1 s
           | Some h \<Rightarrow> chdir w s (''cd'' # args) h False)
      | CdBack \<Rightarrow>
          (case vars s ''OLDPWD'' of
             None \<Rightarrow> finish s (''cd'' # args) True 1 s
           | Some d \<Rightarrow> chdir w s (''cd'' # args) d True)
      | CdTo d \<Rightarrow> chdir w s (''cd'' # args) d False)"

text \<open>
  \<open>pwd\<close> prints the current directory; when the shell cannot name it, \<open>pwd\<close> prints
  nothing on its output and fails with status 1.
\<close>

definition builtin_pwd :: "world \<Rightarrow> string list \<Rightarrow> shell \<Rightarrow> shell" where
  "builtin_pwd w args s =
     (if w_pwd_ok w (clock s) (cwd s)
      then finish s (''pwd'' # args) True 0 (s\<lparr>out := out s @ cwd s @ [CHR 0x0A]\<rparr>)
      else finish s (''pwd'' # args) True 1 s)"

definition run_program :: "world \<Rightarrow> string list \<Rightarrow> shell \<Rightarrow> shell" where
  "run_program w argv s =
     (case w_exec w (clock s) (cwd s) argv of
        (st, text) \<Rightarrow> finish s argv False st (s\<lparr>out := out s @ text\<rparr>))"

definition run_simple :: "world \<Rightarrow> string list \<Rightarrow> shell \<Rightarrow> shell" where
  "run_simple w argv s =
     (case argv of
        [] \<Rightarrow> s\<lparr>status := 0\<rparr>
      | name # args \<Rightarrow>
          if name = ''cd'' then builtin_cd w args s
          else if name = ''pwd'' then builtin_pwd w args s
          else run_program w (name # args) s)"

subsection \<open>Commands and the script\<close>

text \<open>
  A command substitution runs in a subshell: what it does to variables and to the
  current directory is lost, its output becomes the value, its status the status of the
  assignment. No \<open>set -e\<close> is in force, so a list of commands runs to its end.
\<close>

primrec exec :: "world \<Rightarrow> command \<Rightarrow> shell \<Rightarrow> shell" where
  "exec w (Simple ws) = (\<lambda>s. run_simple w (expand_words w s ws) s)"
| "exec w (AssignSub x c) =
     (\<lambda>s. let s' = exec w c (s\<lparr>out := []\<rparr>)
          in s\<lparr>vars := (vars s)(x \<mapsto> strip_newlines (out s')),
               clock := clock s', status := status s', log := log s'\<rparr>)"
| "exec w (AndIf c1 c2) =
     (\<lambda>s. let s' = exec w c1 s in if status s' = 0 then exec w c2 s' else s')"

definition exec_list :: "world \<Rightarrow> command list \<Rightarrow> shell \<Rightarrow> shell" where
  "exec_list w cs s = foldl (\<lambda>s c. exec w c s) s cs"

definition run_script :: "world \<Rightarrow> shell" where
  "run_script w = exec_list w script (init w)"

subsection \<open>Reading the log\<close>

definition ev_name :: "event \<Rightarrow> string" where
  "ev_name e = (case ev_argv e of [] \<Rightarrow> [] | a # _ \<Rightarrow> a)"

definition is_cd :: "event \<Rightarrow> bool" where
  "is_cd e = (ev_builtin e \<and> ev_name e = ''cd'')"

definition is_git :: "event \<Rightarrow> bool" where
  "is_git e = (\<not> ev_builtin e \<and> ev_name e = ''/usr/bin/git'')"

definition is_commit :: "event \<Rightarrow> bool" where
  "is_commit e = (is_git e \<and> take 1 (drop 1 (ev_argv e)) = [''commit''])"

definition is_date :: "event \<Rightarrow> bool" where
  "is_date e = (ev_name e = ''date'')"

text \<open>The outcome of each \<open>cd\<close> that ran, and the command line of each git command that ran.\<close>

definition cd_results :: "event list \<Rightarrow> bool list" where
  "cd_results l = map (\<lambda>e. ev_status e = 0) (filter is_cd l)"

definition git_calls :: "event list \<Rightarrow> string list list" where
  "git_calls l = map ev_argv (filter is_git l)"

definition names :: "event list \<Rightarrow> string list" where
  "names l = map ev_name l"

definition programs :: "event list \<Rightarrow> string list" where
  "programs l = names (filter (\<lambda>e. \<not> ev_builtin e) l)"

text \<open>
  What \<open>date\<close> prints when the script starts (the clock is 0), as the command
  substitution keeps it; and the event that run of \<open>date\<close> leaves.
\<close>

definition start_date :: "world \<Rightarrow> string" where
  "start_date w = strip_newlines (snd (w_exec w 0 (w_start_dir w) [''date'']))"

text \<open>
  What \<open>pwd\<close> prints in the second line (the clock is 1), as the command substitution
  keeps it: nothing when \<open>pwd\<close> fails.
\<close>

definition start_path :: "world \<Rightarrow> string" where
  "start_path w =
     (if w_pwd_ok w 1 (w_start_dir w) then strip_newlines (w_start_dir w @ [CHR 0x0A]) else [])"

definition date_event :: "world \<Rightarrow> event" where
  "date_event w = \<lparr>ev_clock = 0, ev_cwd = w_start_dir w, ev_argv = [''date''],
     ev_builtin = False, ev_status = fst (w_exec w 0 (w_start_dir w) [''date''])\<rparr>"

text \<open>
  The sequence of the specification: branch create, checkout of the new branch, add,
  commit with the message made of the time stamp \<open>d\<close>, checkout of master, merge, push,
  branch delete.
\<close>

definition git_sequence :: "string \<Rightarrow> string list list" where
  "git_sequence d =
    [ [''/usr/bin/git'', ''branch'', ''tmp''],
      [''/usr/bin/git'', ''checkout'', ''tmp''],
      [''/usr/bin/git'', ''add'', ''.'', ''--all''],
      [''/usr/bin/git'', ''commit'', ''-m'', ''code on '' @ d],
      [''/usr/bin/git'', ''checkout'', ''master''],
      [''/usr/bin/git'', ''merge'', ''tmp''],
      [''/usr/bin/git'', ''push'', ''origin'', ''master''],
      [''/usr/bin/git'', ''branch'', ''-d'', ''tmp''] ]"

text \<open>
  The names of the commands a run goes through, given the outcomes of its \<open>cd\<close>s: a line
  whose \<open>cd\<close> fails does not reach its git command.
\<close>

definition path_of :: "bool list \<Rightarrow> string list" where
  "path_of bs = ''date'' # ''pwd'' #
     concat (map (\<lambda>b. if b then [''cd'', ''/usr/bin/git''] else [''cd'']) bs)"



text \<open>
  A path name that field splitting and pathname expansion leave alone: absolute, with no
  blank, tab or newline, and none of the pattern characters.
\<close>

definition plain_path :: "string \<Rightarrow> bool" where
  "plain_path p \<longleftrightarrow> p \<noteq> [] \<and> hd p = CHR ''/'' \<and>
     (\<forall>c \<in> set p. c \<notin> ifs \<and> c \<noteq> CHR ''*'' \<and> c \<noteq> CHR ''?'' \<and> c \<noteq> CHR ''['')"

subsection \<open>Example worlds\<close>

text \<open>
  In \<open>w_plain\<close> the script starts in \<open>/srv/repo\<close>, every directory can be entered and
  named, every program succeeds, and \<open>date\<close> prints the clock: \<open>T\<close> followed by one
  \<open>+\<close> per tick.
\<close>

definition w_plain :: world where
  "w_plain = \<lparr>w_start_dir = ''/srv/repo'', w_env = [''PWD'' \<mapsto> ''/srv/repo''],
     w_exec = (\<lambda>t d argv.
        if argv = [''date''] then (0, ''T'' @ replicate t (CHR ''+'') @ [CHR 0x0A]) else (0, [])),
     w_dir_ok = (\<lambda>t d p. True), w_pwd_ok = (\<lambda>t d. True), w_glob = (\<lambda>t d p. [])\<rparr>"

text \<open>
  In \<open>w_vanish\<close> the start directory exists on the branch \<open>tmp\<close> only: once
  \<open>git checkout master\<close> has run (at clock 11) it cannot be entered any more.
\<close>

definition w_vanish :: world where
  "w_vanish = w_plain\<lparr>w_start_dir := ''/srv/repo/new'',
     w_env := [''PWD'' \<mapsto> ''/srv/repo/new''], w_dir_ok := (\<lambda>t d p. t < 12)\<rparr>"

text \<open>
  In \<open>w_bracket\<close> the script starts in the directory \<open>/r/[a]\<close>, which has a sibling
  \<open>/r/a\<close>: the pattern \<open>/r/[a]\<close> matches \<open>/r/a\<close> and nothing else. In \<open>w_space\<close> it
  starts in \<open>/srv/my repo\<close>.
\<close>

definition w_bracket :: world where
  "w_bracket = w_plain\<lparr>w_start_dir := ''/r/[a]'', w_env := [''PWD'' \<mapsto> ''/r/[a]''],
     w_glob := (\<lambda>t d p. if p = ''/r/[a]'' then [''/r/a''] else [])\<rparr>"

definition w_space :: world where
  "w_space = w_plain\<lparr>w_start_dir := ''/srv/my repo'',
     w_env := [''PWD'' \<mapsto> ''/srv/my repo'']\<rparr>"

subsection \<open>The script as a prologue and eight lines\<close>

definition git_args :: "word list list" where
  "git_args =
    [ [[Lit ''branch''], [Lit ''tmp'']],
      [[Lit ''checkout''], [Lit ''tmp'']],
      [[Lit ''add''], [Lit ''.''], [Lit ''--all'']],
      [[Lit ''commit''], [Lit ''-m''], [QLit ''code on '', QVar ''temp_date'']],
      [[Lit ''checkout''], [Lit ''master'']],
      [[Lit ''merge''], [Lit ''tmp'']],
      [[Lit ''push''], [Lit ''origin''], [Lit ''master'']],
      [[Lit ''branch''], [Lit ''-d''], [Lit ''tmp'']] ]"

definition line :: "nat \<Rightarrow> command" where
  "line k = AndIf cd_temp_path (git (git_args ! k))"

definition prologue :: "world \<Rightarrow> shell" where
  "prologue w = exec_list w (take 2 script) (init w)"

definition cd_event :: "world \<Rightarrow> shell \<Rightarrow> event" where
  "cd_event w s = \<lparr>ev_clock = clock s, ev_cwd = cwd s,
     ev_argv = ''cd'' # expand_word w s [Var ''temp_path''], ev_builtin = True,
     ev_status = status (exec w cd_temp_path s)\<rparr>"

definition git_event :: "world \<Rightarrow> word list \<Rightarrow> shell \<Rightarrow> event" where
  "git_event w ws s = \<lparr>ev_clock = clock s, ev_cwd = cwd s,
     ev_argv = ''/usr/bin/git'' # expand_words w s ws, ev_builtin = False,
     ev_status = fst (w_exec w (clock s) (cwd s) (''/usr/bin/git'' # expand_words w s ws))\<rparr>"

lemma script_lines: "script = take 2 script @ map line [0..<8]"
  by (simp add: script_def line_def git_args_def upt_rec)

lemma exec_list_append: "exec_list w (xs @ ys) s = exec_list w ys (exec_list w xs s)"
  by (simp add: exec_list_def)

lemma exec_list_lines:
  "exec_list w (map line [0..<Suc k]) s = exec w (line k) (exec_list w (map line [0..<k]) s)"
  by (simp add: exec_list_def)

lemma run_script_lines: "run_script w = exec_list w (map line [0..<8]) (prologue w)"
proof -
  have "exec_list w script (init w) = exec_list w (take 2 script @ map line [0..<8]) (init w)"
    by (rule arg_cong [OF script_lines])
  then show ?thesis
    by (simp only: run_script_def prologue_def exec_list_append)
qed

text \<open>
  Induction over the eight lines: a property of the state after the two assignments that
  every line carries on holds when the script ends. The second rule is the same for two
  runs side by side.
\<close>

lemma lines_induct:
  assumes base: "P 0 (prologue w)"
    and step: "\<And>k s. k < 8 \<Longrightarrow> P k s \<Longrightarrow> P (Suc k) (exec w (line k) s)"
  shows "P 8 (run_script w)"
proof -
  have "k \<le> 8 \<Longrightarrow> P k (exec_list w (map line [0..<k]) (prologue w))" for k
  proof (induction k)
    case 0
    then show ?case using base by (simp add: exec_list_def)
  next
    case (Suc k)
    then show ?case using step [of k] by (simp only: exec_list_lines)
  qed
  from this [of 8] show ?thesis by (simp only: run_script_lines)
qed


lemma eight_cases:
  "k < 8 \<Longrightarrow> k = 0 \<or> k = 1 \<or> k = 2 \<or> k = 3 \<or> k = 4 \<or> k = 5 \<or> k = 6 \<or> k = (7::nat)"
  by arith

subsection \<open>Expansion of the script's words\<close>

lemma split_fields_lit:
  "split_fields (map (\<lambda>c. XC c OLit) t @ xs) cur =
     split_fields xs (if t = [] then cur else Some (cur_field cur @ map (\<lambda>c. XC c OLit) t))"
  by (induction t arbitrary: cur) (auto simp: cur_field_def)

lemma split_fields_quoted:
  "split_fields (map (\<lambda>c. XC c OQuoted) t @ xs) (Some f) =
     split_fields xs (Some (f @ map (\<lambda>c. XC c OQuoted) t))"
  by (induction t arbitrary: f) (auto simp: cur_field_def)

lemma split_fields_plain:
  "t \<noteq> [] \<Longrightarrow> \<forall>c \<in> set t. c \<notin> ifs \<Longrightarrow>
   split_fields (map (\<lambda>c. XC c OExp) t) cur = [cur_field cur @ map (\<lambda>c. XC c OExp) t]"
  by (induction t arbitrary: cur rule: list_nonempty_induct) (auto simp: cur_field_def)

lemma untag_append: "untag (xs @ ys) = untag xs @ untag ys"
  by (induction xs rule: untag.induct) auto

lemma untag_map: "untag (map (\<lambda>c. XC c og) t) = t"
  by (induction t) auto

lemma glob_active_append: "glob_active (xs @ ys) = (glob_active xs \<or> glob_active ys)"
  by (induction xs rule: glob_active.induct) auto

lemma glob_active_quoted: "\<not> glob_active (map (\<lambda>c. XC c OQuoted) t)"
  by (induction t) auto

lemma glob_active_unquoted:
  "og \<noteq> OQuoted \<Longrightarrow> glob_active (map (\<lambda>c. XC c og) t) =
     (\<exists>c \<in> set t. c = CHR ''*'' \<or> c = CHR ''?'' \<or> c = CHR ''['')"
  by (induction t) auto

lemma expand_word_lit:
  "t \<noteq> [] \<Longrightarrow> \<not> (\<exists>c \<in> set t. c = CHR ''*'' \<or> c = CHR ''?'' \<or> c = CHR ''['') \<Longrightarrow>
   expand_word w s [Lit t] = [t]"
  using split_fields_lit [of t "[]" None]
  by (simp add: expand_word_def expand_path_def glob_active_unquoted untag_map cur_field_def)

lemma expand_word_message:
  "expand_word w s [QLit t, QVar x] = [t @ lookup s x]"
  using split_fields_quoted [of t "XNull # map (\<lambda>c. XC c OQuoted) (lookup s x)" "[]"]
    split_fields_quoted [of "lookup s x" "[]" "map (\<lambda>c. XC c OQuoted) t"]
  by (simp add: expand_word_def expand_path_def cur_field_def glob_active_append
      glob_active_quoted untag_append untag_map)

lemma expand_word_plain:
  "plain_path (lookup s x) \<Longrightarrow> expand_word w s [Var x] = [lookup s x]"
  using split_fields_plain [of "lookup s x" None]
  by (auto simp add: plain_path_def expand_word_def expand_path_def glob_active_unquoted
      untag_map cur_field_def)

lemma strip_newlines_line:
  "p \<noteq> [] \<Longrightarrow> last p \<noteq> CHR 0x0A \<Longrightarrow> strip_newlines (p @ [CHR 0x0A]) = p"
  by (cases p rule: rev_cases) (simp_all add: strip_newlines_def)

lemma git_argv:
  assumes "k < 8" and "lookup s ''temp_date'' = d"
  shows "''/usr/bin/git'' # expand_words w s (git_args ! k) = git_sequence d ! k"
  using eight_cases [OF assms(1)] assms(2)
  by (elim disjE) (simp_all add: git_args_def git_sequence_def expand_words_def expand_word_lit
      expand_word_message)

subsection \<open>What one line does\<close>

lemma log_builtin_cd:
  "log (builtin_cd w args s) =
     log s @ [\<lparr>ev_clock = clock s, ev_cwd = cwd s, ev_argv = ''cd'' # args, ev_builtin = True,
               ev_status = status (builtin_cd w args s)\<rparr>]"
  by (simp add: builtin_cd_def chdir_def finish_def split: cd_args.split option.split)

lemma vars_builtin_cd:
  "x \<noteq> ''PWD'' \<Longrightarrow> x \<noteq> ''OLDPWD'' \<Longrightarrow> vars (builtin_cd w args s) x = vars s x"
  by (simp add: builtin_cd_def chdir_def finish_def split: cd_args.split option.split)

lemma clock_builtin_cd: "clock (builtin_cd w args s) = Suc (clock s)"
  by (simp add: builtin_cd_def chdir_def finish_def split: cd_args.split option.split)

lemma cwd_builtin_cd_plain:
  "plain_path p \<Longrightarrow> status (builtin_cd w [p] s) = 0 \<Longrightarrow> cwd (builtin_cd w [p] s) = p"
  by (cases p) (auto simp add: plain_path_def builtin_cd_def chdir_def finish_def resolve_def
      split: if_splits)

lemma exec_cd_temp_path:
  "exec w cd_temp_path s = builtin_cd w (expand_word w s [Var ''temp_path'']) s"
  by (simp add: cd_temp_path_def expand_words_def expand_word_lit run_simple_def)

lemma exec_git:
  "exec w (git ws) s = run_program w (''/usr/bin/git'' # expand_words w s ws) s"
  by (simp add: git_def expand_words_def expand_word_lit run_simple_def)

lemma log_exec_cd: "log (exec w cd_temp_path s) = log s @ [cd_event w s]"
  by (simp add: exec_cd_temp_path log_builtin_cd cd_event_def)

lemma vars_exec_cd:
  "x \<noteq> ''PWD'' \<Longrightarrow> x \<noteq> ''OLDPWD'' \<Longrightarrow> vars (exec w cd_temp_path s) x = vars s x"
  by (simp add: exec_cd_temp_path vars_builtin_cd)

lemma clock_exec_cd: "clock (exec w cd_temp_path s) = Suc (clock s)"
  by (simp add: exec_cd_temp_path clock_builtin_cd)

lemma log_run_program:
  "log (run_program w argv s) = log s @ [\<lparr>ev_clock = clock s, ev_cwd = cwd s, ev_argv = argv,
      ev_builtin = False, ev_status = fst (w_exec w (clock s) (cwd s) argv)\<rparr>]"
  by (simp add: run_program_def finish_def split: prod.split)

lemma vars_run_program: "vars (run_program w argv s) = vars s"
  by (simp add: run_program_def finish_def split: prod.split)

lemma clock_run_program: "clock (run_program w argv s) = Suc (clock s)"
  by (simp add: run_program_def finish_def split: prod.split)

lemma log_line:
  "log (exec w (line k) s) =
     log s @ cd_event w s #
       (if ev_status (cd_event w s) = 0
        then [git_event w (git_args ! k) (exec w cd_temp_path s)] else [])"
  by (simp add: line_def exec_git Let_def log_run_program log_exec_cd git_event_def cd_event_def)

lemma vars_line:
  "x \<noteq> ''PWD'' \<Longrightarrow> x \<noteq> ''OLDPWD'' \<Longrightarrow> vars (exec w (line k) s) x = vars s x"
  by (simp add: line_def exec_git Let_def vars_run_program vars_exec_cd)

lemma clock_line: "0 < clock (exec w (line k) s)"
  by (simp add: line_def exec_git Let_def clock_run_program clock_exec_cd)


lemma ev_argv_git_event:
  "k < 8 \<Longrightarrow> lookup s ''temp_date'' = d \<Longrightarrow>
   ev_argv (git_event w (git_args ! k) (exec w cd_temp_path s)) = git_sequence d ! k"
  using git_argv [of k "exec w cd_temp_path s" d w]
  by (simp add: git_event_def lookup_def vars_exec_cd)

lemma kind_cd_event [simp]:
  "is_cd (cd_event w s)" "\<not> is_git (cd_event w s)" "\<not> is_commit (cd_event w s)"
  "\<not> is_date (cd_event w s)" "ev_name (cd_event w s) = ''cd''" "ev_builtin (cd_event w s)"
  by (simp_all add: is_cd_def is_git_def is_commit_def is_date_def ev_name_def cd_event_def)

lemma kind_git_event [simp]:
  "is_git (git_event w ws s)" "\<not> is_cd (git_event w ws s)" "\<not> is_date (git_event w ws s)"
  "ev_name (git_event w ws s) = ''/usr/bin/git''" "\<not> ev_builtin (git_event w ws s)"
  by (simp_all add: is_cd_def is_git_def is_date_def ev_name_def git_event_def)

lemma is_commit_git_event:
  assumes "k < 8" and "lookup s ''temp_date'' = d"
  shows "is_commit (git_event w (git_args ! k) (exec w cd_temp_path s)) \<longleftrightarrow> k = 3"
  using eight_cases [OF assms(1)] ev_argv_git_event [OF assms, of w]
  by (elim disjE) (simp_all add: is_commit_def git_sequence_def)

lemma prologue_eq:
  "prologue w = \<lparr>vars = (w_env w)(''temp_date'' \<mapsto> start_date w,
        ''temp_path'' \<mapsto> start_path w),
      cwd = w_start_dir w, clock = 2,
      status = (if w_pwd_ok w 1 (w_start_dir w) then 0 else 1), out = [],
      log = [date_event w,
             \<lparr>ev_clock = 1, ev_cwd = w_start_dir w, ev_argv = [''pwd''], ev_builtin = True,
               ev_status = (if w_pwd_ok w 1 (w_start_dir w) then 0 else 1)\<rparr>]\<rparr>"
  by (simp add: prologue_def script_def exec_list_def init_def expand_words_def expand_word_lit
      run_simple_def run_program_def builtin_pwd_def finish_def start_date_def start_path_def
      date_event_def strip_newlines_def Let_def split: prod.split)

subsection \<open>The runs in the example worlds\<close>

lemmas run_defs = run_script_def exec_list_def script_def init_def cd_temp_path_def git_def
  expand_words_def expand_word_def expand_path_def lookup_def strip_newlines_def ifs_def
  cur_field_def run_simple_def builtin_cd_def builtin_pwd_def run_program_def finish_def
  chdir_def resolve_def Let_def

lemma start_date_plain: "start_date w_plain = ''T''"
  by (simp add: start_date_def w_plain_def strip_newlines_def)

lemma start_date_vanish: "start_date w_vanish = ''T''"
  by (simp add: start_date_def w_vanish_def w_plain_def strip_newlines_def)

lemma cd_results_plain:
  "cd_results (log (run_script w_plain)) = [True, True, True, True, True, True, True, True]"
  by (simp add: run_defs w_plain_def cd_results_def is_cd_def ev_name_def)

lemma names_plain:
  "names (log (run_script w_plain)) =
     [''date'', ''pwd'', ''cd'', ''/usr/bin/git'', ''cd'', ''/usr/bin/git'', ''cd'', ''/usr/bin/git'',
      ''cd'', ''/usr/bin/git'', ''cd'', ''/usr/bin/git'', ''cd'', ''/usr/bin/git'',
      ''cd'', ''/usr/bin/git'', ''cd'', ''/usr/bin/git'']"
  by (simp add: run_defs w_plain_def names_def ev_name_def)

lemma cd_results_vanish:
  "cd_results (log (run_script w_vanish)) = [True, True, True, True, True, False, False, False]"
  by (simp add: run_defs w_vanish_def w_plain_def cd_results_def is_cd_def ev_name_def)

lemma names_vanish:
  "names (log (run_script w_vanish)) =
     [''date'', ''pwd'', ''cd'', ''/usr/bin/git'', ''cd'', ''/usr/bin/git'', ''cd'', ''/usr/bin/git'',
      ''cd'', ''/usr/bin/git'', ''cd'', ''/usr/bin/git'', ''cd'', ''cd'', ''cd'']"
  by (simp add: run_defs w_vanish_def w_plain_def names_def ev_name_def)

lemma git_calls_vanish:
  "git_calls (log (run_script w_vanish)) =
    [ [''/usr/bin/git'', ''branch'', ''tmp''],
      [''/usr/bin/git'', ''checkout'', ''tmp''],
      [''/usr/bin/git'', ''add'', ''.'', ''--all''],
      [''/usr/bin/git'', ''commit'', ''-m'', ''code on T''],
      [''/usr/bin/git'', ''checkout'', ''master''] ]"
  by (simp add: run_defs w_vanish_def w_plain_def git_calls_def is_git_def ev_name_def)

section \<open>Claims about the shell script\<close>

text \<open>
  Claim C1, as the specification has it: the script executes exactly the fixed sequence
  branch create, checkout, add, commit, checkout master, merge, push, branch delete, on
  every run. It fails in \<open>w_vanish\<close>: the directory the script started in is gone after
  \<open>git checkout master\<close>, the \<open>cd\<close> of the last three lines fails, and \<open>&&\<close> skips
  merge, push and branch delete.
\<close>

theorem script_git_sequence_counterexample:
  "git_calls (log (run_script w_vanish)) = take 5 (git_sequence (start_date w_vanish)) \<and>
   git_calls (log (run_script w_vanish)) \<noteq> git_sequence (start_date w_vanish)"
  by (simp add: git_calls_vanish start_date_vanish git_sequence_def)

definition guarded :: "string \<Rightarrow> nat \<Rightarrow> shell \<Rightarrow> bool" where
  "guarded d k s \<longleftrightarrow>
     lookup s ''temp_date'' = d \<and> length (cd_results (log s)) = k \<and>
     git_calls (log s) = map snd (filter fst (zip (cd_results (log s)) (git_sequence d)))"

lemma zip_snoc:
  "length xs = k \<Longrightarrow> k < length ys \<Longrightarrow> zip (xs @ [b]) ys = zip xs ys @ [(b, ys ! k)]"
proof (induction xs arbitrary: ys k)
  case Nil
  then show ?case by (cases ys) auto
next
  case (Cons x xs)
  then show ?case by (cases ys) auto
qed

lemma map_snd_zip_all:
  "length bs = length ys \<Longrightarrow> list_all id bs \<Longrightarrow> map snd (filter fst (zip bs ys)) = ys"
  by (induction bs ys rule: list_induct2) auto

lemma guarded_step:
  assumes "k < 8" and "guarded d k s"
  shows "guarded d (Suc k) (exec w (line k) s)"
proof -
  from assms(2) have d: "lookup s ''temp_date'' = d"
    and len: "length (cd_results (log s)) = k"
    and calls: "git_calls (log s) = map snd (filter fst (zip (cd_results (log s)) (git_sequence d)))"
    by (simp_all add: guarded_def)
  have klen: "k < length (git_sequence d)"
    using assms(1) by (simp add: git_sequence_def)
  let ?b = "ev_status (cd_event w s) = 0"
  have res: "cd_results (log (exec w (line k) s)) = cd_results (log s) @ [?b]"
    by (simp add: log_line cd_results_def)
  have gc: "git_calls (log (exec w (line k) s)) =
      git_calls (log s) @ (if ?b then [git_sequence d ! k] else [])"
    using ev_argv_git_event [OF assms(1) d, of w]
    by (simp add: log_line git_calls_def)
  have "lookup (exec w (line k) s) ''temp_date'' = d"
    using d by (simp add: lookup_def vars_line)
  moreover have "length (cd_results (log (exec w (line k) s))) = Suc k"
    using len by (simp add: res)
  moreover have "git_calls (log (exec w (line k) s)) =
      map snd (filter fst (zip (cd_results (log (exec w (line k) s))) (git_sequence d)))"
    by (simp add: res gc calls zip_snoc [OF len klen])
  ultimately show ?thesis by (simp add: guarded_def)
qed

lemma guarded_prologue: "guarded (start_date w) 0 (prologue w)"
  by (simp add: guarded_def prologue_eq lookup_def cd_results_def git_calls_def is_cd_def
      is_git_def ev_name_def date_event_def)

text \<open>
  Claim C1, amended: every run reaches the \<open>cd\<close> of all eight lines, and the git commands
  it executes are those of the lines whose \<open>cd\<close> succeeded, in the order of the fixed
  sequence, the commit message made of the time stamp taken at the start. On a run where
  every \<open>cd\<close> succeeds that is the whole sequence, whatever the git commands return.
\<close>

theorem script_git_sequence_guarded:
  "length (cd_results (log (run_script w))) = 8 \<and>
   git_calls (log (run_script w)) =
     map snd (filter fst (zip (cd_results (log (run_script w))) (git_sequence (start_date w)))) \<and>
   (list_all id (cd_results (log (run_script w))) \<longrightarrow>
      git_calls (log (run_script w)) = git_sequence (start_date w))"
proof -
  have g: "guarded (start_date w) 8 (run_script w)"
    by (rule lines_induct [where P = "guarded (start_date w)"])
      (rule guarded_prologue, rule guarded_step)
  then have len: "length (cd_results (log (run_script w))) = 8"
    and calls: "git_calls (log (run_script w)) =
     map snd (filter fst (zip (cd_results (log (run_script w))) (git_sequence (start_date w))))"
    by (simp_all add: guarded_def)
  have "length (cd_results (log (run_script w))) = length (git_sequence (start_date w))"
    using len by (simp add: git_sequence_def)
  from map_snd_zip_all [OF this] calls len show ?thesis by simp
qed

theorem script_git_sequence_guarded_witness:
  "list_all id (cd_results (log (run_script w_plain))) \<and>
   git_calls (log (run_script w_plain)) = git_sequence ''T''"
  using script_git_sequence_guarded [of w_plain]
  by (simp add: cd_results_plain start_date_plain git_sequence_def)

















text \<open>
  Claim C3, as the specification has it: no branching and no state tracking; the control
  path is the same straight line regardless of any command's outcome, and no value is
  recorded between steps. Both parts fail. The worlds \<open>w_plain\<close> and \<open>w_vanish\<close> differ
  in the outcome of \<open>cd\<close> only, and the runs take different paths; and the script keeps
  two values from its first two lines.
\<close>

theorem script_control_path_counterexample:
  "names (log (run_script w_vanish)) \<noteq> names (log (run_script w_plain)) \<and>
   w_env w_plain ''temp_date'' = None \<and>
   vars (run_script w_plain) ''temp_date'' = Some ''T'' \<and>
   w_env w_plain ''temp_path'' = None \<and>
   vars (run_script w_plain) ''temp_path'' = Some ''/srv/repo''"
proof -
  have "vars (run_script w_plain) ''temp_date'' = Some ''T''"
    by (simp add: run_defs w_plain_def)
  moreover have "vars (run_script w_plain) ''temp_path'' = Some ''/srv/repo''"
    by (simp add: run_defs w_plain_def)
  moreover have "w_env w_plain ''temp_date'' = None" and "w_env w_plain ''temp_path'' = None"
    by (simp_all add: w_plain_def)
  ultimately show ?thesis
    by (simp add: names_vanish names_plain)
qed

definition straight :: "world \<Rightarrow> nat \<Rightarrow> shell \<Rightarrow> bool" where
  "straight w k s \<longleftrightarrow> names (log s) = path_of (cd_results (log s)) \<and>
     length (cd_results (log s)) = k \<and>
     vars s ''temp_date'' = Some (start_date w) \<and> vars s ''temp_path'' = Some (start_path w)"

lemma straight_step: "straight w k s \<Longrightarrow> straight w (Suc k) (exec w (line k) s)"
  by (simp add: straight_def log_line vars_line names_def path_of_def cd_results_def)

lemma straight_prologue: "straight w 0 (prologue w)"
  by (simp add: straight_def prologue_eq names_def path_of_def cd_results_def is_cd_def
      ev_name_def date_event_def)

text \<open>
  Claim C3, amended: the script is a straight line of ten lines with no loop and one kind
  of branch, the \<open>&&\<close> of each of the last eight lines: every run goes through \<open>date\<close>,
  \<open>pwd\<close> and the eight \<open>cd\<close>s in order, and runs the git command of a line exactly when
  the \<open>cd\<close> of that line succeeded, so the path depends on the outcomes of the \<open>cd\<close>s and
  on nothing else. The script records two values in its first two lines and holds them to
  its end: \<open>temp_date\<close>, what \<open>date\<close> printed, and \<open>temp_path\<close>, what \<open>pwd\<close> printed.
\<close>

theorem script_control_path:
  "names (log (run_script w)) = path_of (cd_results (log (run_script w))) \<and>
   length (cd_results (log (run_script w))) = 8 \<and>
   vars (run_script w) ''temp_date'' = Some (start_date w) \<and>
   vars (run_script w) ''temp_path'' = Some (start_path w)"
proof -
  have "straight w 8 (run_script w)"
    by (rule lines_induct [where P = "straight w"]) (rule straight_prologue, rule straight_step)
  then show ?thesis by (simp add: straight_def)
qed

theorem script_control_path_witness:
  "names (log (run_script w_vanish)) =
     path_of [True, True, True, True, True, False, False, False] \<and>
   vars (run_script w_vanish) ''temp_path'' = Some ''/srv/repo/new''"
  using script_control_path [of w_vanish]
  by (simp add: cd_results_vanish)
    (simp add: start_path_def w_vanish_def w_plain_def strip_newlines_def)

text \<open>
  Claim C5, as the specification has it: the script starts no program other than the
  version-control executable. Its first line starts \<open>date\<close>, which is a program of the
  host and no builtin of the shell (\<open>pwd\<close> and \<open>cd\<close> are builtins).
\<close>

theorem script_programs_counterexample:
  "programs (log (run_script w_plain)) =
     [''date'', ''/usr/bin/git'', ''/usr/bin/git'', ''/usr/bin/git'', ''/usr/bin/git'',
      ''/usr/bin/git'', ''/usr/bin/git'', ''/usr/bin/git'', ''/usr/bin/git''] \<and>
   ''date'' \<in> set (programs (log (run_script w_plain)))"
proof -
  have "programs (log (run_script w_plain)) =
     [''date'', ''/usr/bin/git'', ''/usr/bin/git'', ''/usr/bin/git'', ''/usr/bin/git'',
      ''/usr/bin/git'', ''/usr/bin/git'', ''/usr/bin/git'', ''/usr/bin/git'']"
    by (simp add: run_defs w_plain_def programs_def names_def ev_name_def)
  then show ?thesis by simp
qed

definition two_programs :: "nat \<Rightarrow> shell \<Rightarrow> bool" where
  "two_programs k s \<longleftrightarrow>
     programs (log s) =
       ''date'' # replicate (length (filter id (cd_results (log s)))) ''/usr/bin/git''"

lemma two_programs_step: "two_programs k s \<Longrightarrow> two_programs (Suc k) (exec w (line k) s)"
  by (simp add: two_programs_def log_line programs_def names_def cd_results_def
      replicate_append_same)

lemma two_programs_prologue: "two_programs 0 (prologue w)"
  by (simp add: two_programs_def prologue_eq programs_def names_def cd_results_def is_cd_def
      ev_name_def date_event_def)

text \<open>
  Claim C5, amended: the script depends on two programs of the host. It starts \<open>date\<close>,
  found through \<open>PATH\<close>, once and first, and then \<open>/usr/bin/git\<close> once for every line
  whose \<open>cd\<close> succeeded; it starts no other program.
\<close>

theorem script_programs:
  "programs (log (run_script w)) =
     ''date'' # replicate (length (filter id (cd_results (log (run_script w))))) ''/usr/bin/git'' \<and>
   set (programs (log (run_script w))) \<subseteq> {''date'', ''/usr/bin/git''}"
proof -
  have "two_programs 8 (run_script w)"
    by (rule lines_induct [where P = two_programs])
      (rule two_programs_prologue, rule two_programs_step)
  then have p: "programs (log (run_script w)) =
     ''date'' # replicate (length (filter id (cd_results (log (run_script w))))) ''/usr/bin/git''"
    by (simp add: two_programs_def)
  show ?thesis
    by (rule conjI [OF p]) (auto simp add: p)
qed

theorem script_programs_witness:
  "programs (log (run_script w_vanish)) =
     [''date'', ''/usr/bin/git'', ''/usr/bin/git'', ''/usr/bin/git'', ''/usr/bin/git'',
      ''/usr/bin/git'']"
  using script_programs [of w_vanish]
  by (simp add: cd_results_vanish)

text \<open>
  Claim C8: every git command runs in the directory that was current when the script
  started. The script means it (each line enters \<open>$temp_path\<close> first), and it holds for
  a start directory whose name is plain. But \<open>$temp_path\<close> is not quoted, so the name is
  split into fields and expanded as a pattern before \<open>cd\<close> sees it. Started in
  \<open>/r/[a]\<close> with a sibling directory \<open>/r/a\<close>, the script runs all eight git commands in
  \<open>/r/a\<close>; started in \<open>/srv/my repo\<close>, every \<open>cd\<close> gets two operands and fails, and no
  git command runs at all.
\<close>

theorem git_directory_bracket:
  "w_start_dir w_bracket = ''/r/[a]'' \<and>
   map ev_cwd (filter is_git (log (run_script w_bracket))) =
     [''/r/a'', ''/r/a'', ''/r/a'', ''/r/a'', ''/r/a'', ''/r/a'', ''/r/a'', ''/r/a''] \<and>
   w_start_dir w_space = ''/srv/my repo'' \<and>
   cd_results (log (run_script w_space)) =
     [False, False, False, False, False, False, False, False] \<and>
   git_calls (log (run_script w_space)) = []"
proof -
  have "map ev_cwd (filter is_git (log (run_script w_bracket))) =
     [''/r/a'', ''/r/a'', ''/r/a'', ''/r/a'', ''/r/a'', ''/r/a'', ''/r/a'', ''/r/a'']"
    by (simp add: run_defs w_bracket_def w_plain_def is_git_def ev_name_def)
  moreover have "cd_results (log (run_script w_space)) =
     [False, False, False, False, False, False, False, False]"
    by (simp add: run_defs w_space_def w_plain_def cd_results_def is_cd_def ev_name_def)
  moreover have "git_calls (log (run_script w_space)) = []"
    by (simp add: run_defs w_space_def w_plain_def git_calls_def is_git_def ev_name_def)
  moreover have "w_start_dir w_bracket = ''/r/[a]''" and "w_start_dir w_space = ''/srv/my repo''"
    by (simp_all add: w_bracket_def w_space_def)
  ultimately show ?thesis by simp
qed

text \<open>
  For a start directory that the shell can name and whose name is plain the git commands
  do run there, whatever else happens. (Started in a directory that has been removed,
  \<open>pwd\<close> fails, \<open>temp_path\<close> is empty and \<open>cd\<close> without operand goes to \<open>$HOME\<close>.)
\<close>

definition at_home :: "world \<Rightarrow> nat \<Rightarrow> shell \<Rightarrow> bool" where
  "at_home w k s \<longleftrightarrow> lookup s ''temp_path'' = w_start_dir w \<and>
     (\<forall>e \<in> set (log s). is_git e \<longrightarrow> ev_cwd e = w_start_dir w)"

lemma at_home_prologue:
  assumes "plain_path (w_start_dir w)" and "w_pwd_ok w 1 (w_start_dir w)"
  shows "at_home w 0 (prologue w)"
proof -
  from assms(1) have "w_start_dir w \<noteq> []" and "last (w_start_dir w) \<noteq> CHR 0x0A"
    by (auto simp add: plain_path_def ifs_def)
  then have "strip_newlines (w_start_dir w @ [CHR 0x0A]) = w_start_dir w"
    by (rule strip_newlines_line)
  then show ?thesis
    using assms(2)
    by (simp add: at_home_def prologue_eq start_path_def lookup_def is_git_def ev_name_def
        date_event_def)
qed

lemma at_home_step:
  assumes "plain_path (w_start_dir w)" and "at_home w k s"
  shows "at_home w (Suc k) (exec w (line k) s)"
proof -
  from assms(2) have p: "lookup s ''temp_path'' = w_start_dir w"
    and l: "\<forall>e \<in> set (log s). is_git e \<longrightarrow> ev_cwd e = w_start_dir w"
    by (simp_all add: at_home_def)
  have cd: "exec w cd_temp_path s = builtin_cd w [w_start_dir w] s"
    using expand_word_plain [of s "''temp_path''" w] assms(1) p
    by (simp add: exec_cd_temp_path)
  have "ev_status (cd_event w s) = 0 \<Longrightarrow>
      ev_cwd (git_event w (git_args ! k) (exec w cd_temp_path s)) = w_start_dir w"
    using cwd_builtin_cd_plain [OF assms(1), of w s]
    by (simp add: cd git_event_def cd_event_def)
  then show ?thesis
    using p l by (auto simp add: at_home_def log_line lookup_def vars_line)
qed

lemma git_directory_plain:
  assumes "plain_path (w_start_dir w)" and "w_pwd_ok w 1 (w_start_dir w)"
  shows "\<forall>e \<in> set (log (run_script w)). is_git e \<longrightarrow> ev_cwd e = w_start_dir w"
proof -
  have "at_home w 8 (run_script w)"
    by (rule lines_induct [where P = "at_home w"])
      (rule at_home_prologue [OF assms], rule at_home_step [OF assms(1)])
  then show ?thesis by (simp add: at_home_def)
qed

definition stamped :: "world \<Rightarrow> nat \<Rightarrow> shell \<Rightarrow> bool" where
  "stamped w k s \<longleftrightarrow>
     lookup s ''temp_date'' = start_date w \<and>
     (\<forall>e \<in> set (log s). is_commit e \<longrightarrow>
        ev_argv e = [''/usr/bin/git'', ''commit'', ''-m'', ''code on '' @ start_date w] \<and>
        0 < ev_clock e) \<and>
     filter is_date (log s) = [date_event w] \<and>
     length (filter is_commit (log s)) \<le> (if k \<le> 3 then 0 else 1)"

definition commit_plain :: event where
  "commit_plain = \<lparr>ev_clock = 9, ev_cwd = ''/srv/repo'',
     ev_argv = [''/usr/bin/git'', ''commit'', ''-m'', ''code on T''], ev_builtin = False,
     ev_status = 0\<rparr>"

lemma stamped_step:
  assumes "k < 8" and "stamped w k s"
  shows "stamped w (Suc k) (exec w (line k) s)"
proof -
  from assms(2) have d: "lookup s ''temp_date'' = start_date w"
    by (simp add: stamped_def)
  have argv: "ev_argv (git_event w (git_args ! k) (exec w cd_temp_path s)) =
      git_sequence (start_date w) ! k"
    by (rule ev_argv_git_event [OF assms(1) d])
  have clk: "0 < ev_clock (git_event w (git_args ! k) (exec w cd_temp_path s))"
    by (simp add: git_event_def clock_exec_cd)
  have three: "k = 3 \<Longrightarrow>
      ev_argv (git_event w (git_args ! k) (exec w cd_temp_path s)) =
        [''/usr/bin/git'', ''commit'', ''-m'', ''code on '' @ start_date w]"
    using argv by (simp add: git_sequence_def)
  show ?thesis
    using assms(2) clk three
    by (auto simp add: stamped_def log_line lookup_def vars_line
        is_commit_git_event [OF assms(1) d])
qed

lemma stamped_prologue: "stamped w 0 (prologue w)"
  by (simp add: stamped_def prologue_eq lookup_def is_commit_def is_git_def is_date_def
      ev_name_def date_event_def)

text \<open>
  Claim C9: the commit message is \<open>code on\<close> followed by the time stamp taken once, when
  the script starts. Whenever the commit runs, its command line is \<open>commit -m\<close> with the
  message made of what \<open>date\<close> printed at clock 0, and the commit runs later than that;
  \<open>date\<close> is run once, as the first command of the script; and the commit runs at most
  once.
\<close>

theorem commit_message_start_date:
  "(\<forall>e \<in> set (log (run_script w)). is_commit e \<longrightarrow>
      ev_argv e = [''/usr/bin/git'', ''commit'', ''-m'', ''code on '' @ start_date w] \<and>
      0 < ev_clock e) \<and>
   filter is_date (log (run_script w)) = [date_event w] \<and>
   length (filter is_commit (log (run_script w))) \<le> 1"
proof -
  have "stamped w 8 (run_script w)"
    by (rule lines_induct [where P = "stamped w"]) (rule stamped_prologue, rule stamped_step)
  then show ?thesis by (simp add: stamped_def)
qed

text \<open>
  In \<open>w_plain\<close> the commit runs at clock 9, when \<open>date\<close> would print \<open>T+++++++++\<close>; the
  message holds \<open>T\<close>, what it printed at clock 0.
\<close>

theorem commit_message_start_date_witness:
  "commit_plain \<in> set (log (run_script w_plain)) \<and> is_commit commit_plain \<and>
   ev_argv commit_plain = [''/usr/bin/git'', ''commit'', ''-m'', ''code on '' @ start_date w_plain] \<and>
   start_date w_plain = ''T'' \<and>
   snd (w_exec w_plain (ev_clock commit_plain) ''/srv/repo'' [''date'']) =
     ''T+++++++++'' @ [CHR 0x0A]"
proof -
  have m: "commit_plain \<in> set (log (run_script w_plain))"
    by (simp add: run_defs w_plain_def commit_plain_def)
  have c: "is_commit commit_plain"
    by (simp add: is_commit_def is_git_def ev_name_def commit_plain_def)
  have "ev_argv commit_plain =
      [''/usr/bin/git'', ''commit'', ''-m'', ''code on '' @ start_date w_plain]"
    using commit_message_start_date [of w_plain] m c by blast
  moreover have "snd (w_exec w_plain (ev_clock commit_plain) ''/srv/repo'' [''date'']) =
     ''T+++++++++'' @ [CHR 0x0A]"
    by (simp add: w_plain_def commit_plain_def eval_nat_numeral)
  ultimately show ?thesis using m c by (simp add: start_date_plain)
qed

section \<open>The notebook \<open>linear-regression-gluon.ipynb\<close>\<close>

text \<open>
  The notebook has ten code cells, saved with the execution counts 1 to 10; it is run
  once, from the first cell to the last, and a call that raises ends the run (the notebook
  catches nothing). What the notebook does is call the library, so a run is the list of
  the calls it makes, each with its arguments, in the order Python evaluates them. What
  the library does inside a call is not the notebook's: a call is named by the expression
  that makes it, and the library is a parameter of the run, which says which call raises
  and how many mini-batches each iteration over the data loader yields.
\<close>

subsection \<open>Expressions\<close>

text \<open>
  \<open>PDec m e\<close> is the decimal literal \<open>m / 10^e\<close>, as it is written: \<open>0.03\<close> is
  \<open>PDec 3 2\<close>. \<open>Call f args kwargs\<close> is a call of \<open>f\<close>; a method call has the object it is
  called on as its first argument.
\<close>

datatype py =
    PInt int
  | PDec int nat
  | PStr string
  | PBool bool
  | PTuple "py list"
  | PList "py list"
  | PDict "(string \<times> py) list"
  | Call string "py list" "(string \<times> py) list"
  | Item py nat
  | Attr py string

definition invoke :: "py \<Rightarrow> string \<Rightarrow> py list \<Rightarrow> py" where
  "invoke obj name args = Call name (obj # args) []"

fun fn_name :: "py \<Rightarrow> string" where
  "fn_name (Call f args kw) = f"
| "fn_name e = []"

fun positional :: "py \<Rightarrow> py list" where
  "positional (Call f args kw) = args"
| "positional e = []"

fun keyword :: "py \<Rightarrow> string \<Rightarrow> py option" where
  "keyword (Call f args kw) k = map_of kw k"
| "keyword e k = None"

subsection \<open>The library and the state of a run\<close>

text \<open>
  \<open>lib_raises n c\<close>: the call \<open>c\<close>, made as call number \<open>n\<close> of the run, raises.
  \<open>lib_batches k\<close>: the number of mini-batches that iteration number \<open>k\<close> over the data
  loader yields; the preview of cell 3 is iteration 0, epoch \<open>e\<close> is iteration \<open>e\<close>.
  \<open>lib_sampler k n\<close>: the order that the library's random sampler draws for iteration
  number \<open>k\<close> over \<open>n\<close> samples.
\<close>

record lib =
  lib_raises :: "nat \<Rightarrow> py \<Rightarrow> bool"
  lib_batches :: "nat \<Rightarrow> nat"
  lib_sampler :: "nat \<Rightarrow> nat \<Rightarrow> nat list"

text \<open>
  The order in which an iteration over a \<open>DataLoader\<close> visits the \<open>n\<close> samples of its
  data set. The notebook describes it above cell 2: \<open>shuffle\<close> is "a Boolean value
  indicating whether or not we want the DataLoader to shuffle the data on each epoch
  (pass through the dataset)". So does gluon: when \<open>shuffle\<close> counts as true, as Python's
  \<open>if\<close> takes a value, every iteration draws a fresh order from the random sampler;
  otherwise, and when \<open>shuffle\<close> is left out, the samples come in the order of the data
  set. An expression that is no \<open>DataLoader\<close> has no such order. This is the library's
  behaviour, which the notebook relies on and does not contain.
\<close>

fun truthy :: "py \<Rightarrow> bool" where
  "truthy (PBool b) = b"
| "truthy (PInt i) = (i \<noteq> 0)"
| "truthy (PDec m e) = (m \<noteq> 0)"
| "truthy (PStr t) = (t \<noteq> [])"
| "truthy (PTuple xs) = (xs \<noteq> [])"
| "truthy (PList xs) = (xs \<noteq> [])"
| "truthy (PDict kvs) = (kvs \<noteq> [])"
| "truthy e = True"

definition visit_order :: "lib \<Rightarrow> py \<Rightarrow> nat \<Rightarrow> nat \<Rightarrow> nat list option" where
  "visit_order lib dl k n =
     (if fn_name dl = ''gluon.data.DataLoader''
      then (case keyword dl ''shuffle'' of
              None \<Rightarrow> Some [0..<n]
            | Some v \<Rightarrow> if truthy v then Some (lib_sampler lib k n) else Some [0..<n])
      else None)"

record run =
  trace :: "py list"
  raised :: bool

definition start :: run where
  "start = \<lparr>trace = [], raised = False\<rparr>"

definition call :: "lib \<Rightarrow> py \<Rightarrow> run \<Rightarrow> run" where
  "call lib c s =
     (if raised s then s
      else \<lparr>trace = trace s @ [c], raised = lib_raises lib (length (trace s)) c\<rparr>)"

definition perform :: "lib \<Rightarrow> py list \<Rightarrow> run \<Rightarrow> run" where
  "perform lib cs s = foldl (\<lambda>s c. call lib c s) s cs"

definition import :: "string \<Rightarrow> py" where
  "import m = Call ''import'' [PStr m] []"

definition print :: "py list \<Rightarrow> py" where
  "print args = Call ''print'' args []"

subsection \<open>Cell 1: the data set\<close>

text \<open>
  \<^verbatim>\<open>
  import d2l
  from mxnet import autograd, nd, gluon

  true_w = nd.array([2, -3.4])
  true_b = 4.2
  features, labels = d2l.synthetic_data(true_w, true_b, 1000)
  \<close>
\<close>

definition true_w :: py where
  "true_w = Call ''nd.array'' [PList [PInt 2, PDec (- 34) 1]] []"

definition true_b :: py where
  "true_b = PDec 42 1"

definition synthetic_data :: py where
  "synthetic_data = Call ''d2l.synthetic_data'' [true_w, true_b, PInt 1000] []"

definition features :: py where
  "features = Item synthetic_data 0"

definition labels :: py where
  "labels = Item synthetic_data 1"

definition cell1 :: "lib \<Rightarrow> run \<Rightarrow> run" where
  "cell1 lib = perform lib [import ''d2l'', import ''mxnet'', true_w, synthetic_data]"

subsection \<open>Cell 2: the data loader\<close>

text \<open>
  \<^verbatim>\<open>
  def load_array(data_arrays, batch_size, is_train=True):
      """Construct a Gluon data loader"""
      dataset = gluon.data.ArrayDataset(*data_arrays)
      return gluon.data.DataLoader(dataset, batch_size, shuffle=is_train)

  batch_size = 10
  data_iter = load_array((features, labels), batch_size)
  \<close>
  \<open>load_array\<close> takes the elements of \<open>data_arrays\<close>, and \<open>is_train\<close> as an option: \<open>None\<close>
  when the caller leaves it out. It gives the loader it returns and the state after its
  two calls.
\<close>

definition load_array :: "lib \<Rightarrow> py list \<Rightarrow> py \<Rightarrow> py option \<Rightarrow> run \<Rightarrow> py \<times> run" where
  "load_array lib data_arrays batch_size is_train_arg s =
     (let is_train = (case is_train_arg of None \<Rightarrow> PBool True | Some v \<Rightarrow> v);
          dataset = Call ''gluon.data.ArrayDataset'' data_arrays [];
          loader = Call ''gluon.data.DataLoader'' [dataset, batch_size] [(''shuffle'', is_train)]
      in (loader, perform lib [dataset, loader] s))"

definition batch_size :: py where
  "batch_size = PInt 10"

definition cell2 :: "lib \<Rightarrow> run \<Rightarrow> py \<times> run" where
  "cell2 lib s = load_array lib [features, labels] batch_size None s"

subsection \<open>Cell 3: a look at the first mini-batch\<close>

text \<open>
  \<^verbatim>\<open>
  for X, y in data_iter:
      print(X, y)
      break
  \<close>
  The loop asks the loader for an iterator and the iterator for its first element. When
  there is one, the body prints it and \<open>break\<close> leaves the loop; when there is none, the
  loop ends without running its body. The loop variables \<open>X\<close> and \<open>y\<close> are \<open>batch_X\<close> and
  \<open>batch_y\<close> here.
\<close>

definition iterator :: "py \<Rightarrow> py" where
  "iterator data_iter = invoke data_iter ''__iter__'' []"

definition batch :: "py \<Rightarrow> py" where
  "batch data_iter = invoke (iterator data_iter) ''__next__'' []"

definition batch_X :: "py \<Rightarrow> py" where
  "batch_X data_iter = Item (batch data_iter) 0"

definition batch_y :: "py \<Rightarrow> py" where
  "batch_y data_iter = Item (batch data_iter) 1"

definition cell3 :: "lib \<Rightarrow> py \<Rightarrow> run \<Rightarrow> run" where
  "cell3 lib data_iter s =
     (let s1 = call lib (iterator data_iter) s;
          s2 = call lib (batch data_iter) s1
      in if 0 < lib_batches lib 0 then call lib (print [batch_X data_iter, batch_y data_iter]) s2 else s2)"

subsection \<open>Cells 4 to 8: model, initialisation, loss, trainer\<close>

text \<open>
  \<^verbatim>\<open>
  from mxnet.gluon import nn
  net = nn.Sequential()
  \<close>
  \<^verbatim>\<open>
  net.add(nn.Dense(1))
  \<close>
  \<^verbatim>\<open>
  from mxnet import init
  net.initialize(init.Normal(sigma=0.01))
  \<close>
  \<^verbatim>\<open>
  from mxnet.gluon import loss as gloss
  loss = gloss.L2Loss()  # The squared loss is also known as the L2 norm loss
  \<close>
  \<^verbatim>\<open>
  from mxnet import gluon
  trainer = gluon.Trainer(net.collect_params(), 'sgd', {'learning_rate': 0.03})
  \<close>
\<close>

definition net :: py where
  "net = Call ''nn.Sequential'' [] []"

definition cell4 :: "lib \<Rightarrow> run \<Rightarrow> run" where
  "cell4 lib = perform lib [import ''mxnet.gluon'', net]"

definition dense :: py where
  "dense = Call ''nn.Dense'' [PInt 1] []"

definition cell5 :: "lib \<Rightarrow> run \<Rightarrow> run" where
  "cell5 lib = perform lib [dense, invoke net ''add'' [dense]]"

definition normal :: py where
  "normal = Call ''init.Normal'' [] [(''sigma'', PDec 1 2)]"

definition cell6 :: "lib \<Rightarrow> run \<Rightarrow> run" where
  "cell6 lib = perform lib [import ''mxnet'', normal, invoke net ''initialize'' [normal]]"

definition loss :: py where
  "loss = Call ''gloss.L2Loss'' [] []"

definition cell7 :: "lib \<Rightarrow> run \<Rightarrow> run" where
  "cell7 lib = perform lib [import ''mxnet.gluon'', loss]"

definition params :: py where
  "params = invoke net ''collect_params'' []"

definition trainer :: py where
  "trainer = Call ''gluon.Trainer'' [params, PStr ''sgd'', PDict [(''learning_rate'', PDec 3 2)]] []"

definition cell8 :: "lib \<Rightarrow> run \<Rightarrow> run" where
  "cell8 lib = perform lib [import ''mxnet'', params, trainer]"

subsection \<open>Cell 9: training\<close>

text \<open>
  \<^verbatim>\<open>
  num_epochs = 3
  for epoch in range(1, num_epochs + 1):
      for X, y in data_iter:
          with autograd.record():
              l = loss(net(X), y)
          l.backward()
          trainer.step(batch_size)
      l = loss(net(features), labels)
      print('epoch %d, loss: %f' % (epoch, l.mean().asnumpy()))
  \<close>
  The inner loop takes an element from the iterator before each round, and once more at
  the end, when the iterator is exhausted. \<open>with autograd.record()\<close> is the call of
  \<open>autograd.record\<close>; entering and leaving its scope are not calls of their own here.
\<close>

definition num_epochs :: nat where
  "num_epochs = 3"

definition batch_loss :: "py \<Rightarrow> py" where
  "batch_loss data_iter = invoke loss ''__call__'' [invoke net ''__call__'' [batch_X data_iter], batch_y data_iter]"

definition batch_body :: "py \<Rightarrow> py list" where
  "batch_body data_iter =
     [ Call ''autograd.record'' [] [],
       invoke net ''__call__'' [batch_X data_iter],
       batch_loss data_iter,
       invoke (batch_loss data_iter) ''backward'' [],
       invoke trainer ''step'' [batch_size] ]"

fun for_batches :: "lib \<Rightarrow> py \<Rightarrow> nat \<Rightarrow> run \<Rightarrow> run" where
  "for_batches lib data_iter 0 s = call lib (batch data_iter) s"
| "for_batches lib data_iter (Suc n) s =
     for_batches lib data_iter n
       (perform lib (batch_body data_iter) (call lib (batch data_iter) s))"

definition epoch_loss :: py where
  "epoch_loss = invoke loss ''__call__'' [invoke net ''__call__'' [features], labels]"

definition epoch_report :: "nat \<Rightarrow> py list" where
  "epoch_report epoch =
     [ invoke net ''__call__'' [features],
       epoch_loss,
       invoke epoch_loss ''mean'' [],
       invoke (invoke epoch_loss ''mean'' []) ''asnumpy'' [],
       print [Call ''%'' [PStr ''epoch %d, loss: %f'',
              PTuple [PInt (int epoch), invoke (invoke epoch_loss ''mean'' []) ''asnumpy'' []]] []] ]"

definition epoch_step :: "lib \<Rightarrow> py \<Rightarrow> run \<Rightarrow> nat \<Rightarrow> run" where
  "epoch_step lib data_iter s epoch =
     (let s1 = call lib (iterator data_iter) s;
          s2 = for_batches lib data_iter (lib_batches lib epoch) s1
      in perform lib (epoch_report epoch) s2)"

definition cell9 :: "lib \<Rightarrow> py \<Rightarrow> run \<Rightarrow> run" where
  "cell9 lib data_iter s = foldl (epoch_step lib data_iter) s [1..<num_epochs + 1]"

subsection \<open>Cell 10: the learned parameters\<close>

text \<open>
  \<^verbatim>\<open>
  w = net[0].weight.data()
  print('Error in estimating w', true_w.reshape(w.shape) - w)
  b = net[0].bias.data()
  print('Error in estimating b', true_b - b)
  \<close>
  The variables \<open>w\<close> and \<open>b\<close> are \<open>w_learned\<close> and \<open>b_learned\<close> here. The operators
  \<open>-\<close> and \<open>%\<close> are calls too: \<open>x - w\<close> is the method \<open>__sub__\<close> of an array \<open>x\<close>, and
  \<open>true_b - b\<close>, with a number on the left, is the method \<open>__rsub__\<close> of \<open>b\<close>; \<open>%\<close> on a
  string is Python's own and leaves no call.
\<close>

definition layer0 :: py where
  "layer0 = invoke net ''__getitem__'' [PInt 0]"

definition w_learned :: py where
  "w_learned = invoke (Attr layer0 ''weight'') ''data'' []"

definition b_learned :: py where
  "b_learned = invoke (Attr layer0 ''bias'') ''data'' []"

definition w_error :: py where
  "w_error = invoke (invoke true_w ''reshape'' [Attr w_learned ''shape'']) ''__sub__'' [w_learned]"

definition b_error :: py where
  "b_error = invoke b_learned ''__rsub__'' [true_b]"

definition cell10 :: "lib \<Rightarrow> run \<Rightarrow> run" where
  "cell10 lib = perform lib
     [ layer0, w_learned,
       invoke true_w ''reshape'' [Attr w_learned ''shape''], w_error,
       print [PStr ''Error in estimating w'', w_error],
       layer0, b_learned,
       b_error,
       print [PStr ''Error in estimating b'', b_error] ]"

subsection \<open>The whole notebook\<close>

definition notebook :: "lib \<Rightarrow> run" where
  "notebook lib =
     (let s1 = cell1 lib start;
          (data_iter, s2) = cell2 lib s1;
          s3 = cell3 lib data_iter s2;
          s4 = cell4 lib s3;
          s5 = cell5 lib s4;
          s6 = cell6 lib s5;
          s7 = cell7 lib s6;
          s8 = cell8 lib s7;
          s9 = cell9 lib data_iter s8
      in cell10 lib s9)"

subsection \<open>The calls of a run, written out\<close>

definition loader :: py where
  "loader = Call ''gluon.data.DataLoader''
     [Call ''gluon.data.ArrayDataset'' [features, labels] [], batch_size]
     [(''shuffle'', PBool True)]"

definition preview_calls :: "lib \<Rightarrow> py list" where
  "preview_calls lib = [iterator loader, batch loader] @
     (if 0 < lib_batches lib 0 then [print [batch_X loader, batch_y loader]] else [])"

definition epoch_calls :: "lib \<Rightarrow> nat \<Rightarrow> py list" where
  "epoch_calls lib epoch = iterator loader #
     concat (replicate (lib_batches lib epoch) (batch loader # batch_body loader)) @
     [batch loader] @ epoch_report epoch"

definition data_calls :: "py list" where
  "data_calls =
     [import ''d2l'', import ''mxnet'', true_w, synthetic_data,
      Call ''gluon.data.ArrayDataset'' [features, labels] [], loader]"

definition model_calls :: "py list" where
  "model_calls =
     [import ''mxnet.gluon'', net,
      dense, invoke net ''add'' [dense],
      import ''mxnet'', normal, invoke net ''initialize'' [normal],
      import ''mxnet.gluon'', loss,
      import ''mxnet'', params, trainer]"

definition inspect_calls :: "py list" where
  "inspect_calls =
     [layer0, w_learned, invoke true_w ''reshape'' [Attr w_learned ''shape''], w_error,
      print [PStr ''Error in estimating w'', w_error],
      layer0, b_learned, b_error,
      print [PStr ''Error in estimating b'', b_error]]"

definition schedule :: "lib \<Rightarrow> py list" where
  "schedule lib =
     data_calls @ preview_calls lib @ model_calls @
     concat (map (epoch_calls lib) [1, 2, 3]) @ inspect_calls"

definition quiet :: "lib \<Rightarrow> bool" where
  "quiet lib \<longleftrightarrow> (\<forall>n c. \<not> lib_raises lib n c)"

definition count_calls :: "string \<Rightarrow> py list \<Rightarrow> nat" where
  "count_calls name tr = length (filter (\<lambda>c. fn_name c = name) tr)"

definition lib2 :: lib where
  "lib2 = \<lparr>lib_raises = (\<lambda>n c. False), lib_batches = (\<lambda>k. 2),
     lib_sampler = (\<lambda>k n. rev [0..<n])\<rparr>"

definition lib0 :: lib where
  "lib0 = \<lparr>lib_raises = (\<lambda>n c. False), lib_batches = (\<lambda>k. 0),
     lib_sampler = (\<lambda>k n. rev [0..<n])\<rparr>"

lemma perform_Nil [simp]: "perform lib [] s = s"
  by (simp add: perform_def)

lemma perform_Cons [simp]: "perform lib (c # cs) s = perform lib cs (call lib c s)"
  by (simp add: perform_def)

lemma perform_append: "perform lib (xs @ ys) s = perform lib ys (perform lib xs s)"
  by (simp add: perform_def)

lemma perform_raised: "raised s \<Longrightarrow> perform lib cs s = s"
  by (induction cs) (simp_all add: call_def)

lemma for_batches_perform:
  "for_batches lib d n s =
     perform lib (concat (replicate n (batch d # batch_body d)) @ [batch d]) s"
  by (induction n arbitrary: s) (simp_all add: perform_append)

lemma epoch_step_perform:
  "epoch_step lib loader s epoch = perform lib (epoch_calls lib epoch) s"
  by (simp add: epoch_step_def epoch_calls_def for_batches_perform perform_append Let_def)

lemma foldl_perform:
  "foldl (\<lambda>s e. perform lib (f e) s) s es = perform lib (concat (map f es)) s"
  by (induction es arbitrary: s) (simp_all add: perform_append)

lemma cell9_perform:
  "cell9 lib loader s = perform lib (concat (map (epoch_calls lib) [1, 2, 3])) s"
proof -
  have "[1..<num_epochs + 1] = [1, 2, 3]"
    by (simp add: num_epochs_def upt_rec)
  then show ?thesis
    using foldl_perform [of lib "epoch_calls lib" s "[1, 2, 3]"]
    by (simp add: cell9_def epoch_step_perform [abs_def])
qed

lemma cell3_perform: "cell3 lib loader s = perform lib (preview_calls lib) s"
  by (simp add: cell3_def preview_calls_def Let_def)

lemma cell2_eq:
  "cell2 lib s = (loader, perform lib [Call ''gluon.data.ArrayDataset'' [features, labels] [], loader] s)"
  by (simp add: cell2_def load_array_def loader_def Let_def)

lemma notebook_perform: "notebook lib = perform lib (schedule lib) start"
  by (simp add: notebook_def cell1_def cell2_eq cell3_perform cell4_def cell5_def cell6_def
      cell7_def cell8_def cell9_perform cell10_def schedule_def data_calls_def model_calls_def
      inspect_calls_def perform_append Let_def)

lemma trace_perform_take: "\<exists>k. trace (perform lib cs s) = trace s @ take k cs"
proof (induction cs arbitrary: s)
  case Nil
  then show ?case by simp
next
  case (Cons c cs)
  show ?case
  proof (cases "raised s")
    case True
    then have "trace (perform lib (c # cs) s) = trace s @ take 0 (c # cs)"
      by (simp only: perform_raised) simp
    then show ?thesis by blast
  next
    case False
    from Cons.IH [of "call lib c s"] obtain k
      where "trace (perform lib cs (call lib c s)) = trace (call lib c s) @ take k cs"
      by blast
    with False have "trace (perform lib (c # cs) s) = trace s @ take (Suc k) (c # cs)"
      by (simp add: call_def)
    then show ?thesis by blast
  qed
qed

lemma trace_perform_quiet:
  "quiet lib \<Longrightarrow> \<not> raised s \<Longrightarrow>
   trace (perform lib cs s) = trace s @ cs \<and> \<not> raised (perform lib cs s)"
  by (induction cs arbitrary: s) (simp_all add: call_def quiet_def)

lemma trace_notebook_take: "\<exists>k. trace (notebook lib) = take k (schedule lib)"
  using trace_perform_take [of lib "schedule lib" start]
  by (simp add: notebook_perform start_def)

lemma trace_notebook_quiet: "quiet lib \<Longrightarrow> trace (notebook lib) = schedule lib"
  using trace_perform_quiet [of lib start "schedule lib"]
  by (simp add: notebook_perform start_def)

lemma trace_notebook_subset: "set (trace (notebook lib)) \<subseteq> set (schedule lib)"
proof -
  from trace_notebook_take obtain k where "trace (notebook lib) = take k (schedule lib)"
    by blast
  then show ?thesis by (simp add: set_take_subset)
qed

section \<open>Claims about the notebook\<close>

subsection \<open>Reading the trace\<close>

text \<open>
  The eight kinds of library calls the specification lists: dataset and loader
  construction (\<open>Data\<close>), sequential model construction, layer addition, parameter
  initialisation, loss selection, trainer construction, training-loop stepping
  (\<open>Training\<close>), parameter inspection; and one it does not list, the generation of the
  data (\<open>Generate\<close>). \<open>phase_of\<close> gives the kind of a call by the name of the function
  or method called. Stepping through the data loader (\<open>__iter__\<close>, \<open>__next__\<close>) is of
  the kind \<open>Training\<close>, with the calls of the loop's body and of its report; \<open>import\<close>
  and \<open>print\<close>, which are Python's own, have no kind.
\<close>

datatype phase =
  Generate | Data | Model | Layer | Init | Loss | TrainerC | Training | Inspect

definition phase_of :: "py \<Rightarrow> phase list" where
  "phase_of c =
     (let f = fn_name c in
      if f \<in> {''nd.array'', ''d2l.synthetic_data''} then [Generate]
      else if f \<in> {''gluon.data.ArrayDataset'', ''gluon.data.DataLoader''} then [Data]
      else if f = ''nn.Sequential'' then [Model]
      else if f \<in> {''nn.Dense'', ''add''} then [Layer]
      else if f \<in> {''init.Normal'', ''initialize''} then [Init]
      else if f = ''gloss.L2Loss'' then [Loss]
      else if f \<in> {''collect_params'', ''gluon.Trainer''} then [TrainerC]
      else if f \<in> {''__iter__'', ''__next__'', ''autograd.record'', ''__call__'',
                    ''backward'', ''step'', ''mean'', ''asnumpy''} then [Training]
      else if f \<in> {''__getitem__'', ''data'', ''reshape'', ''__sub__'', ''__rsub__''}
      then [Inspect]
      else [])"

definition phases :: "py list \<Rightarrow> phase list" where
  "phases tr = concat (map phase_of tr)"

text \<open>
  The epoch number a call reports: the first element of the tuple that the
  \<open>print\<close> of cell 9 formats.
\<close>

fun tuple_items :: "py \<Rightarrow> py list" where
  "tuple_items (PTuple xs) = xs"
| "tuple_items e = []"

definition epoch_of :: "py \<Rightarrow> py list" where
  "epoch_of c =
     (if fn_name c = ''print'' \<and> map fn_name (positional c) = [''%'']
      then take 1 (tuple_items (last (positional (hd (positional c)))))
      else [])"

definition reported_epochs :: "py list \<Rightarrow> py list" where
  "reported_epochs tr = concat (map epoch_of tr)"

lemmas call_defs = invoke_def import_def print_def true_w_def true_b_def synthetic_data_def
  features_def labels_def batch_size_def iterator_def batch_def batch_X_def batch_y_def net_def
  dense_def normal_def loss_def params_def trainer_def batch_loss_def batch_body_def
  epoch_loss_def epoch_report_def layer0_def w_learned_def b_learned_def w_error_def
  b_error_def loader_def

lemma quiet_lib2: "quiet lib2"
  by (simp add: quiet_def lib2_def)

lemma quiet_lib0: "quiet lib0"
  by (simp add: quiet_def lib0_def)

lemma filter_concat_replicate:
  "filter P xs = [] \<Longrightarrow> filter P (concat (replicate n xs)) = []"
  by (induction n) simp_all

lemma iterations_epoch:
  "filter (\<lambda>c. fn_name c = ''__iter__'') (epoch_calls lib e) = [iterator loader]"
proof -
  have "filter (\<lambda>c. fn_name c = ''__iter__'') (batch loader # batch_body loader) = []"
    by (simp add: call_defs)
  then have "filter (\<lambda>c. fn_name c = ''__iter__'')
      (concat (replicate (lib_batches lib e) (batch loader # batch_body loader))) = []"
    by (rule filter_concat_replicate)
  moreover have "filter (\<lambda>c. fn_name c = ''__iter__'') (epoch_report e) = []"
    by (simp add: call_defs)
  moreover have "fn_name (iterator loader) = ''__iter__''"
    and "fn_name (batch loader) \<noteq> ''__iter__''"
    by (simp_all add: call_defs)
  ultimately show ?thesis
    by (simp add: epoch_calls_def)
qed

lemma iterations_schedule:
  "filter (\<lambda>c. fn_name c = ''__iter__'') (schedule lib) = replicate 4 (iterator loader)"
proof -
  have "filter (\<lambda>c. fn_name c = ''__iter__'') data_calls = []"
    by (simp add: data_calls_def call_defs)
  moreover have "filter (\<lambda>c. fn_name c = ''__iter__'') (preview_calls lib) = [iterator loader]"
    by (simp add: preview_calls_def call_defs)
  moreover have "filter (\<lambda>c. fn_name c = ''__iter__'') model_calls = []"
    by (simp add: model_calls_def call_defs)
  moreover have "filter (\<lambda>c. fn_name c = ''__iter__'') inspect_calls = []"
    by (simp add: inspect_calls_def call_defs)
  ultimately show ?thesis
    by (simp add: schedule_def iterations_epoch eval_nat_numeral)
qed

text \<open>
  Claim C10: for every call of \<open>load_array\<close> the object it constructs and returns is a
  \<open>DataLoader\<close> over the \<open>ArrayDataset\<close> of the arrays, with the batch size given and the
  flag \<open>shuffle\<close> equal to the argument \<open>is_train\<close>, which is \<open>True\<close> when the caller
  leaves it out; it is the second of the two calls \<open>load_array\<close> makes. So a loader built
  with the default, or with \<open>is_train = True\<close>, visits the samples in every iteration in
  the order the random sampler draws for that iteration, and a loader built with
  \<open>is_train = False\<close> visits them in the order of the data set in every iteration. The
  notebook builds its loader with the default, and all four iterations of a run that no
  exception cuts short are iterations over that loader.
\<close>

theorem load_array_shuffle:
  "fst (load_array lib data_arrays bs a s) =
     Call ''gluon.data.DataLoader'' [Call ''gluon.data.ArrayDataset'' data_arrays [], bs]
       [(''shuffle'', case a of None \<Rightarrow> PBool True | Some v \<Rightarrow> v)] \<and>
   snd (load_array lib data_arrays bs a s) =
     perform lib [Call ''gluon.data.ArrayDataset'' data_arrays [],
                  fst (load_array lib data_arrays bs a s)] s \<and>
   keyword (fst (load_array lib data_arrays bs (Some v) s)) ''shuffle'' = Some v \<and>
   keyword (fst (load_array lib data_arrays bs None s)) ''shuffle'' = Some (PBool True) \<and>
   visit_order lib (fst (load_array lib data_arrays bs None s)) k n =
     Some (lib_sampler lib k n) \<and>
   visit_order lib (fst (load_array lib data_arrays bs (Some (PBool True)) s)) k n =
     Some (lib_sampler lib k n) \<and>
   visit_order lib (fst (load_array lib data_arrays bs (Some (PBool False)) s)) k n =
     Some [0..<n] \<and>
   visit_order lib (fst (cell2 lib s)) k n = Some (lib_sampler lib k n) \<and>
   (quiet lib \<longrightarrow>
      filter (\<lambda>c. fn_name c = ''__iter__'') (trace (notebook lib)) =
        replicate 4 (iterator (fst (cell2 lib s))))"
proof -
  have "quiet lib \<longrightarrow>
      filter (\<lambda>c. fn_name c = ''__iter__'') (trace (notebook lib)) =
        replicate 4 (iterator (fst (cell2 lib s)))"
    by (simp add: trace_notebook_quiet iterations_schedule cell2_eq)
  then show ?thesis
    by (simp add: load_array_def cell2_def visit_order_def Let_def)
qed

text \<open>
  In \<open>lib2\<close> the random sampler gives the samples in reverse. The loader of the notebook
  visits four samples in the order 3, 2, 1, 0 in the first epoch; a loader built with
  \<open>is_train = False\<close> visits them in the order 0, 1, 2, 3.
\<close>

theorem load_array_shuffle_witness:
  "quiet lib2 \<and>
   filter (\<lambda>c. fn_name c = ''__iter__'') (trace (notebook lib2)) =
     replicate 4 (iterator (fst (cell2 lib2 start))) \<and>
   visit_order lib2 (fst (cell2 lib2 start)) 1 4 = Some [3, 2, 1, 0] \<and>
   visit_order lib2 (fst (load_array lib2 [features, labels] batch_size (Some (PBool False)) start))
     1 4 = Some [0, 1, 2, 3]"
proof -
  have r: "lib_sampler lib2 1 4 = [3, 2, 1, 0]" and u: "[0..<4] = [0, 1, 2, 3::nat]"
    by (simp_all add: lib2_def upt_rec)
  from load_array_shuffle [of lib2 "[features, labels]" batch_size None start "PBool True" 1 4]
    quiet_lib2
  have "filter (\<lambda>c. fn_name c = ''__iter__'') (trace (notebook lib2)) =
      replicate 4 (iterator (fst (cell2 lib2 start)))"
    and "visit_order lib2 (fst (cell2 lib2 start)) 1 4 = Some (lib_sampler lib2 1 4)"
    and "visit_order lib2
      (fst (load_array lib2 [features, labels] batch_size (Some (PBool False)) start)) 1 4 =
      Some [0..<4]"
    by blast+
  then show ?thesis
    using quiet_lib2 by (simp only: r u simp_thms)
qed

text \<open>
  The values the notebook configures the library with, as literals: the batch size 10 of
  the loader and of every \<open>trainer.step\<close>, the standard deviation \<open>0.01\<close> of the
  initialiser, the learning rate \<open>0.03\<close> of the trainer.
\<close>

definition literal_config :: "py \<Rightarrow> bool" where
  "literal_config c \<longleftrightarrow>
    (fn_name c = ''gluon.data.DataLoader'' \<longrightarrow> take 1 (drop 1 (positional c)) = [PInt 10]) \<and>
    (fn_name c = ''init.Normal'' \<longrightarrow> keyword c ''sigma'' = Some (PDec 1 2)) \<and>
    (fn_name c = ''gluon.Trainer'' \<longrightarrow>
       drop 1 (positional c) = [PStr ''sgd'', PDict [(''learning_rate'', PDec 3 2)]]) \<and>
    (fn_name c = ''step'' \<longrightarrow> drop 1 (positional c) = [PInt 10])"

lemma list_all_concat_replicate: "list_all P xs \<Longrightarrow> list_all P (concat (replicate n xs))"
  by (induction n) simp_all

lemma literal_data: "list_all literal_config data_calls"
  by (simp add: data_calls_def literal_config_def call_defs)

lemma literal_preview: "list_all literal_config (preview_calls lib)"
  by (simp add: preview_calls_def literal_config_def call_defs)

lemma literal_model: "list_all literal_config model_calls"
  by (simp add: model_calls_def literal_config_def call_defs)

lemma literal_body: "list_all literal_config (batch loader # batch_body loader)"
  by (simp add: literal_config_def call_defs)

lemma literal_report: "list_all literal_config (epoch_report e)"
  by (simp add: literal_config_def call_defs)

lemma literal_iterator: "literal_config (iterator loader)"
  by (simp add: literal_config_def call_defs)

lemma literal_epoch: "list_all literal_config (epoch_calls lib e)"
  using literal_body literal_report [of e] literal_iterator
    list_all_concat_replicate [OF literal_body, of "lib_batches lib e"]
  by (simp add: epoch_calls_def)

lemma literal_inspect: "list_all literal_config inspect_calls"
  by (simp add: inspect_calls_def literal_config_def call_defs)

lemma literal_schedule: "list_all literal_config (schedule lib)"
  by (simp add: schedule_def literal_data literal_preview literal_model literal_epoch
      literal_inspect)

lemma epoch_of_concat_replicate:
  "reported_epochs xs = [] \<Longrightarrow> reported_epochs (concat (replicate n xs)) = []"
  by (induction n) (simp_all add: reported_epochs_def)

lemma reported_append: "reported_epochs (xs @ ys) = reported_epochs xs @ reported_epochs ys"
  by (simp add: reported_epochs_def)

lemma reported_data: "reported_epochs data_calls = []"
  by (simp add: reported_epochs_def epoch_of_def data_calls_def call_defs)

lemma reported_preview: "reported_epochs (preview_calls lib) = []"
  by (simp add: reported_epochs_def epoch_of_def preview_calls_def call_defs)

lemma reported_model: "reported_epochs model_calls = []"
  by (simp add: reported_epochs_def epoch_of_def model_calls_def call_defs)

lemma reported_body: "reported_epochs (batch loader # batch_body loader) = []"
  by (simp add: reported_epochs_def epoch_of_def call_defs)

lemma reported_report: "reported_epochs (epoch_report e) = [PInt (int e)]"
  by (simp add: reported_epochs_def epoch_of_def call_defs)

lemma reported_epoch: "reported_epochs (epoch_calls lib e) = [PInt (int e)]"
proof -
  have i: "epoch_of (iterator loader) = []" and b: "epoch_of (batch loader) = []"
    by (simp_all add: epoch_of_def call_defs)
  have "reported_epochs (epoch_calls lib e) =
      epoch_of (iterator loader) @
      reported_epochs (concat (replicate (lib_batches lib e) (batch loader # batch_body loader))) @
      epoch_of (batch loader) @ reported_epochs (epoch_report e)"
    by (simp add: epoch_calls_def reported_epochs_def)
  then show ?thesis
    using epoch_of_concat_replicate [OF reported_body, of "lib_batches lib e"]
    by (simp only: i b reported_report append_Nil)
qed

lemma reported_inspect: "reported_epochs inspect_calls = []"
  by (simp add: reported_epochs_def epoch_of_def inspect_calls_def call_defs)

lemma reported_schedule: "reported_epochs (schedule lib) = [PInt 1, PInt 2, PInt 3]"
  using reported_epoch [of lib 1] reported_epoch [of lib 2] reported_epoch [of lib 3]
  by (simp add: schedule_def reported_append reported_data reported_preview reported_model
      reported_inspect)

text \<open>
  Claim C7: every configuration value the notebook passes to the library is a literal
  constant. Whatever the library does, every loader the run constructs gets the batch
  size 10, every initialiser the standard deviation 0.01, every trainer the learning rate
  0.03, and every step of the trainer the batch size 10; the number of epochs is the
  constant 3, and a run that no exception cuts short reports the epochs 1, 2 and 3.
\<close>

theorem notebook_literals:
  "(\<forall>c \<in> set (trace (notebook lib)). literal_config c) \<and> num_epochs = 3 \<and>
   (quiet lib \<longrightarrow> reported_epochs (trace (notebook lib)) = [PInt 1, PInt 2, PInt 3])"
proof -
  have "\<forall>c \<in> set (schedule lib). literal_config c"
    using literal_schedule [of lib] by (simp add: list_all_iff)
  then have "\<forall>c \<in> set (trace (notebook lib)). literal_config c"
    using trace_notebook_subset [of lib] by blast
  then show ?thesis
    by (simp add: num_epochs_def trace_notebook_quiet reported_schedule)
qed

theorem notebook_literals_witness:
  "quiet lib2 \<and> loader \<in> set (trace (notebook lib2)) \<and>
   positional loader = [Call ''gluon.data.ArrayDataset'' [features, labels] [], PInt 10] \<and>
   normal \<in> set (trace (notebook lib2)) \<and> keyword normal ''sigma'' = Some (PDec 1 2) \<and>
   trainer \<in> set (trace (notebook lib2)) \<and>
   positional trainer = [params, PStr ''sgd'', PDict [(''learning_rate'', PDec 3 2)]] \<and>
   invoke trainer ''step'' [batch_size] \<in> set (trace (notebook lib2)) \<and>
   literal_config (invoke trainer ''step'' [batch_size]) \<and>
   reported_epochs (trace (notebook lib2)) = [PInt 1, PInt 2, PInt 3]"
proof -
  have t: "trace (notebook lib2) = schedule lib2"
    by (rule trace_notebook_quiet [OF quiet_lib2])
  have m: "loader \<in> set (schedule lib2)" "normal \<in> set (schedule lib2)"
    "trainer \<in> set (schedule lib2)"
    by (simp_all add: schedule_def data_calls_def model_calls_def)
  have "invoke trainer ''step'' [batch_size] \<in> set (epoch_calls lib2 1)"
    by (simp add: epoch_calls_def lib2_def batch_body_def eval_nat_numeral)
  then have s: "invoke trainer ''step'' [batch_size] \<in> set (schedule lib2)"
    by (simp add: schedule_def)
  have p: "positional loader = [Call ''gluon.data.ArrayDataset'' [features, labels] [], PInt 10]"
    "keyword normal ''sigma'' = Some (PDec 1 2)"
    "positional trainer = [params, PStr ''sgd'', PDict [(''learning_rate'', PDec 3 2)]]"
    by (simp_all add: loader_def normal_def trainer_def batch_size_def)
  from notebook_literals [of lib2] quiet_lib2 m s t p show ?thesis
    by simp
qed

text \<open>
  The order of the specification, and the order of a run: the data are generated first,
  and the notebook steps through the data loader twice, once to look at the first
  mini-batch, before the model exists, and once to train.
\<close>

definition phase_order :: "phase list" where
  "phase_order = [Data, Model, Layer, Init, Loss, TrainerC, Training, Inspect]"

definition run_order :: "phase list" where
  "run_order = [Generate, Data, Training, Model, Layer, Init, Loss, TrainerC, Training, Inspect]"

text \<open>
  The names of the functions and methods a whole run calls, one after the other: the
  data, the loader, the look at the first mini-batch, the model with its layer,
  initialisation, loss and trainer, three epochs, and the inspection of the parameters.
\<close>

definition epoch_names :: "lib \<Rightarrow> nat \<Rightarrow> string list" where
  "epoch_names lib epoch = ''__iter__'' #
     concat (replicate (lib_batches lib epoch)
       [''__next__'', ''autograd.record'', ''__call__'', ''__call__'', ''backward'', ''step'']) @
     [''__next__'', ''__call__'', ''__call__'', ''mean'', ''asnumpy'', ''print'']"

definition call_names :: "lib \<Rightarrow> string list" where
  "call_names lib =
     [''import'', ''import'', ''nd.array'', ''d2l.synthetic_data'',
      ''gluon.data.ArrayDataset'', ''gluon.data.DataLoader'',
      ''__iter__'', ''__next__''] @
     (if 0 < lib_batches lib 0 then [''print''] else []) @
     [''import'', ''nn.Sequential'', ''nn.Dense'', ''add'',
      ''import'', ''init.Normal'', ''initialize'',
      ''import'', ''gloss.L2Loss'',
      ''import'', ''collect_params'', ''gluon.Trainer''] @
     epoch_names lib 1 @ epoch_names lib 2 @ epoch_names lib 3 @
     [''__getitem__'', ''data'', ''reshape'', ''__sub__'', ''print'',
      ''__getitem__'', ''data'', ''__rsub__'', ''print'']"

lemma names_epoch: "map fn_name (epoch_calls lib e) = epoch_names lib e"
proof -
  have "map fn_name (batch loader # batch_body loader) =
      [''__next__'', ''autograd.record'', ''__call__'', ''__call__'', ''backward'', ''step'']"
    by (simp add: call_defs)
  moreover have "map fn_name (epoch_report e) =
      [''__call__'', ''__call__'', ''mean'', ''asnumpy'', ''print'']"
    by (simp add: call_defs)
  moreover have "fn_name (iterator loader) = ''__iter__''"
    and "fn_name (batch loader) = ''__next__''"
    by (simp_all add: call_defs)
  ultimately show ?thesis
    by (simp add: epoch_calls_def epoch_names_def map_concat)
qed

lemma names_schedule: "map fn_name (schedule lib) = call_names lib"
proof -
  have "map fn_name data_calls =
      [''import'', ''import'', ''nd.array'', ''d2l.synthetic_data'',
       ''gluon.data.ArrayDataset'', ''gluon.data.DataLoader'']"
    by (simp add: data_calls_def call_defs)
  moreover have "map fn_name (preview_calls lib) =
      [''__iter__'', ''__next__''] @ (if 0 < lib_batches lib 0 then [''print''] else [])"
    by (simp add: preview_calls_def call_defs)
  moreover have "map fn_name model_calls =
      [''import'', ''nn.Sequential'', ''nn.Dense'', ''add'',
       ''import'', ''init.Normal'', ''initialize'',
       ''import'', ''gloss.L2Loss'',
       ''import'', ''collect_params'', ''gluon.Trainer'']"
    by (simp add: model_calls_def call_defs)
  moreover have "map fn_name inspect_calls =
      [''__getitem__'', ''data'', ''reshape'', ''__sub__'', ''print'',
       ''__getitem__'', ''data'', ''__rsub__'', ''print'']"
    by (simp add: inspect_calls_def call_defs)
  ultimately show ?thesis
    by (simp add: schedule_def call_names_def names_epoch)
qed

lemma phases_append: "phases (xs @ ys) = phases xs @ phases ys"
  by (simp add: phases_def)

lemma phases_concat_replicate:
  "phases xs = replicate m p \<Longrightarrow> phases (concat (replicate n xs)) = replicate (m * n) p"
  by (induction n) (simp_all add: phases_append replicate_add phases_def)

lemma phases_data: "phases data_calls = [Generate, Generate, Data, Data]"
  by (simp add: phases_def phase_of_def data_calls_def call_defs)

lemma phases_preview: "phases (preview_calls lib) = [Training, Training]"
  by (simp add: phases_def phase_of_def preview_calls_def call_defs)

lemma phases_model:
  "phases model_calls = [Model, Layer, Layer, Init, Init, Loss, TrainerC, TrainerC]"
  by (simp add: phases_def phase_of_def model_calls_def call_defs)

lemma phases_body: "phases (batch loader # batch_body loader) = replicate 6 Training"
  by (simp add: phases_def phase_of_def call_defs eval_nat_numeral)

lemma phases_report: "phases (epoch_report e) = replicate 4 Training"
  by (simp add: phases_def phase_of_def call_defs eval_nat_numeral)

lemma phases_epoch:
  "phases (epoch_calls lib e) = replicate (6 * lib_batches lib e + 6) Training"
proof -
  have i: "phase_of (iterator loader) = [Training]" and b: "phase_of (batch loader) = [Training]"
    by (simp_all add: phase_of_def call_defs)
  have "phases (epoch_calls lib e) =
      phase_of (iterator loader) @
      phases (concat (replicate (lib_batches lib e) (batch loader # batch_body loader))) @
      phase_of (batch loader) @ phases (epoch_report e)"
    by (simp add: epoch_calls_def phases_def)
  also have "\<dots> = replicate 1 Training @ replicate (6 * lib_batches lib e) Training @
      replicate 1 Training @ replicate 4 Training"
    by (simp only: i b phases_report phases_concat_replicate [OF phases_body]) simp
  also have "\<dots> = replicate (1 + (6 * lib_batches lib e + (1 + 4))) Training"
    by (simp only: replicate_add [symmetric])
  also have "\<dots> = replicate (6 * lib_batches lib e + 6) Training"
    by (rule arg_cong [where f = "\<lambda>n. replicate n Training"]) arith
  finally show ?thesis .
qed

lemma phases_inspect: "phases inspect_calls = replicate 7 Inspect"
  by (simp add: phases_def phase_of_def inspect_calls_def call_defs eval_nat_numeral)

lemma replicate_three:
  "replicate (6 * a + 6) p @ replicate (6 * b + 6) p @ replicate (6 * c + 6) p =
     replicate (6 * (a + b + c) + 18) p"
proof -
  have "(6 * a + 6) + ((6 * b + 6) + (6 * c + 6)) = 6 * (a + b + c) + 18"
    by arith
  then show ?thesis
    by (simp only: replicate_add [symmetric])
qed

lemma phases_schedule:
  "phases (schedule lib) =
     [Generate, Generate, Data, Data, Training, Training,
      Model, Layer, Layer, Init, Init, Loss, TrainerC, TrainerC] @
     replicate (6 * (lib_batches lib 1 + lib_batches lib 2 + lib_batches lib 3) + 18) Training @
     replicate 7 Inspect"
proof -
  have "phases (concat (map (epoch_calls lib) [1, 2, 3])) =
      phases (epoch_calls lib 1) @ phases (epoch_calls lib 2) @ phases (epoch_calls lib 3)"
    by (simp add: phases_def)
  also have "\<dots> =
      replicate (6 * (lib_batches lib 1 + lib_batches lib 2 + lib_batches lib 3) + 18) Training"
    by (simp only: phases_epoch replicate_three)
  finally show ?thesis
    by (simp only: schedule_def phases_append phases_data phases_preview phases_model
        phases_inspect) simp
qed

lemma remdups_adj_block:
  "x \<noteq> y \<Longrightarrow> remdups_adj (replicate (Suc n) x @ y # ys) = x # remdups_adj (y # ys)"
  by (induction n) simp_all

lemma remdups_adj_phases_schedule: "remdups_adj (phases (schedule lib)) = run_order"
proof -
  define n where "n = 6 * (lib_batches lib 1 + lib_batches lib 2 + lib_batches lib 3) + 17"
  define zs where "zs = replicate (Suc n) Training @ Inspect # replicate 6 Inspect"
  have "remdups_adj (Inspect # replicate 6 Inspect) = [Inspect]"
    using remdups_adj_replicate [of 7 Inspect] by (simp add: eval_nat_numeral)
  then have z: "remdups_adj zs = [Training, Inspect]"
    unfolding zs_def by (subst remdups_adj_block) simp_all
  have "replicate (6 * (lib_batches lib 1 + lib_batches lib 2 + lib_batches lib 3) + 18) Training @
      replicate 7 Inspect = zs"
    unfolding zs_def n_def by (simp add: eval_nat_numeral)
  then have "phases (schedule lib) =
     [Generate, Generate, Data, Data, Training, Training,
      Model, Layer, Layer, Init, Init, Loss, TrainerC, TrainerC] @ zs"
    by (simp only: phases_schedule)
  then show ?thesis
    by (simp add: remdups_adj_Cons z run_order_def)
qed

lemma prefix_remdups_adj: "prefix xs ys \<Longrightarrow> prefix (remdups_adj xs) (remdups_adj ys)"
proof -
  assume "prefix xs ys"
  then obtain zs where ys: "ys = xs @ zs" by (auto simp add: prefix_def)
  show ?thesis
  proof (cases xs rule: rev_cases)
    case Nil
    then show ?thesis by simp
  next
    case (snoc xs' x)
    have "remdups_adj (xs' @ x # zs) = remdups_adj (xs' @ [x]) @ tl (remdups_adj (x # zs))"
      by (rule remdups_adj_append)
    then show ?thesis by (simp add: ys snoc)
  qed
qed

lemma prefix_phases: "prefix xs ys \<Longrightarrow> prefix (phases xs) (phases ys)"
  by (auto simp add: prefix_def phases_def)

lemma prefix_trace_schedule: "prefix (trace (notebook lib)) (schedule lib)"
proof -
  from trace_notebook_take obtain k where "trace (notebook lib) = take k (schedule lib)"
    by blast
  then show ?thesis by (simp add: take_is_prefix)
qed

text \<open>
  Claim C6, as the specification has it: the library calls of the notebook come in
  exactly the order dataset and loader construction, model construction, layer addition,
  parameter initialisation, loss selection, trainer construction, training-loop stepping,
  parameter inspection. In a run where every iteration yields two mini-batches the calls
  right after the construction of the loader step through it (\<open>__iter__\<close>, \<open>__next__\<close>),
  before any model is constructed, and the data are generated before the data set is
  constructed: the kinds come in another order.
\<close>

theorem notebook_call_order_counterexample:
  "remdups_adj (phases (trace (notebook lib2))) =
     [Generate, Data, Training, Model, Layer, Init, Loss, TrainerC, Training, Inspect] \<and>
   remdups_adj (phases (trace (notebook lib2))) \<noteq> phase_order \<and>
   take 4 (drop 4 (map fn_name (trace (notebook lib2)))) =
     [''gluon.data.ArrayDataset'', ''gluon.data.DataLoader'', ''__iter__'', ''__next__'']"
proof -
  have t: "trace (notebook lib2) = schedule lib2"
    by (rule trace_notebook_quiet [OF quiet_lib2])
  have "take 4 (drop 4 (call_names lib2)) =
     [''gluon.data.ArrayDataset'', ''gluon.data.DataLoader'', ''__iter__'', ''__next__'']"
    by (simp add: call_names_def)
  then show ?thesis
    by (simp add: t remdups_adj_phases_schedule names_schedule run_order_def phase_order_def)
qed

text \<open>
  Claim C6, amended: the notebook makes its library calls in this fixed order: data
  generation (\<open>nd.array\<close>, \<open>d2l.synthetic_data\<close>), dataset and loader construction, a
  first step through the loader (cell 3: \<open>__iter__\<close>, \<open>__next__\<close>, and a \<open>print\<close> of the
  mini-batch if there is one), sequential model construction, layer addition, parameter
  initialisation, loss selection, trainer construction, the training loop (three epochs,
  each a step through the whole loader with record, forward pass, loss, backward pass
  and \<open>trainer.step\<close> for every mini-batch, then the loss of the epoch and its
  \<open>print\<close>), and finally parameter inspection. The names called by a run are an
  initial segment of \<open>call_names\<close>, and the whole of it when no call raises; the kinds
  come in the order \<open>run_order\<close>.
\<close>

theorem notebook_call_sequence:
  "prefix (map fn_name (trace (notebook lib))) (call_names lib) \<and>
   prefix (remdups_adj (phases (trace (notebook lib)))) run_order \<and>
   (quiet lib \<longrightarrow>
      map fn_name (trace (notebook lib)) = call_names lib \<and>
      remdups_adj (phases (trace (notebook lib))) = run_order)"
proof -
  have "prefix (map fn_name (trace (notebook lib))) (map fn_name (schedule lib))"
    by (intro map_mono_prefix prefix_trace_schedule)
  moreover
  have "prefix (remdups_adj (phases (trace (notebook lib)))) (remdups_adj (phases (schedule lib)))"
    by (intro prefix_remdups_adj prefix_phases prefix_trace_schedule)
  ultimately show ?thesis
    by (simp add: remdups_adj_phases_schedule names_schedule trace_notebook_quiet)
qed

text \<open>
  In \<open>lib0\<close> no iteration yields a mini-batch: nothing is printed in cell 3, and no
  epoch makes a step.
\<close>

theorem notebook_call_sequence_witness:
  "quiet lib0 \<and>
   map fn_name (trace (notebook lib0)) =
     [''import'', ''import'', ''nd.array'', ''d2l.synthetic_data'',
      ''gluon.data.ArrayDataset'', ''gluon.data.DataLoader'',
      ''__iter__'', ''__next__'',
      ''import'', ''nn.Sequential'', ''nn.Dense'', ''add'',
      ''import'', ''init.Normal'', ''initialize'',
      ''import'', ''gloss.L2Loss'',
      ''import'', ''collect_params'', ''gluon.Trainer'',
      ''__iter__'', ''__next__'', ''__call__'', ''__call__'', ''mean'', ''asnumpy'', ''print'',
      ''__iter__'', ''__next__'', ''__call__'', ''__call__'', ''mean'', ''asnumpy'', ''print'',
      ''__iter__'', ''__next__'', ''__call__'', ''__call__'', ''mean'', ''asnumpy'', ''print'',
      ''__getitem__'', ''data'', ''reshape'', ''__sub__'', ''print'',
      ''__getitem__'', ''data'', ''__rsub__'', ''print''] \<and>
   remdups_adj (phases (trace (notebook lib0))) =
     [Generate, Data, Training, Model, Layer, Init, Loss, TrainerC, Training, Inspect]"
proof -
  from notebook_call_sequence [of lib0] quiet_lib0
  have "map fn_name (trace (notebook lib0)) = call_names lib0"
    and "remdups_adj (phases (trace (notebook lib0))) = run_order"
    by blast+
  moreover have "lib_batches lib0 k = 0" for k
    by (simp add: lib0_def)
  ultimately show ?thesis
    using quiet_lib0 by (simp add: call_names_def epoch_names_def run_order_def)
qed

lemma count_append: "count_calls f (xs @ ys) = count_calls f xs + count_calls f ys"
  by (simp add: count_calls_def)

lemma count_concat_replicate:
  "count_calls f (concat (replicate n xs)) = n * count_calls f xs"
  by (induction n) (simp_all add: count_calls_def)

lemma count_epoch:
  "count_calls ''__iter__'' (epoch_calls lib e) = 1"
  "count_calls ''__next__'' (epoch_calls lib e) = lib_batches lib e + 1"
  "count_calls ''step'' (epoch_calls lib e) = lib_batches lib e"
  "count_calls ''print'' (epoch_calls lib e) = 1"
proof -
  have e: "epoch_calls lib e = [iterator loader] @
      concat (replicate (lib_batches lib e) (batch loader # batch_body loader)) @
      [batch loader] @ epoch_report e"
    by (simp add: epoch_calls_def)
  have c: "count_calls ''__iter__'' [iterator loader] = 1"
    "count_calls ''__iter__'' (batch loader # batch_body loader) = 0"
    "count_calls ''__iter__'' [batch loader] = 0"
    "count_calls ''__iter__'' (epoch_report e) = 0"
    "count_calls ''__next__'' [iterator loader] = 0"
    "count_calls ''__next__'' (batch loader # batch_body loader) = 1"
    "count_calls ''__next__'' [batch loader] = 1"
    "count_calls ''__next__'' (epoch_report e) = 0"
    "count_calls ''step'' [iterator loader] = 0"
    "count_calls ''step'' (batch loader # batch_body loader) = 1"
    "count_calls ''step'' [batch loader] = 0"
    "count_calls ''step'' (epoch_report e) = 0"
    "count_calls ''print'' [iterator loader] = 0"
    "count_calls ''print'' (batch loader # batch_body loader) = 0"
    "count_calls ''print'' [batch loader] = 0"
    "count_calls ''print'' (epoch_report e) = 1"
    by (simp_all add: count_calls_def call_defs)
  show "count_calls ''__iter__'' (epoch_calls lib e) = 1"
    "count_calls ''__next__'' (epoch_calls lib e) = lib_batches lib e + 1"
    "count_calls ''step'' (epoch_calls lib e) = lib_batches lib e"
    "count_calls ''print'' (epoch_calls lib e) = 1"
    by (simp_all only: e count_append count_concat_replicate c)
qed

lemma count_fixed:
  "count_calls ''__iter__'' data_calls = 0" "count_calls ''__next__'' data_calls = 0"
  "count_calls ''step'' data_calls = 0" "count_calls ''print'' data_calls = 0"
  "count_calls ''__iter__'' model_calls = 0" "count_calls ''__next__'' model_calls = 0"
  "count_calls ''step'' model_calls = 0" "count_calls ''print'' model_calls = 0"
  "count_calls ''__iter__'' inspect_calls = 0" "count_calls ''__next__'' inspect_calls = 0"
  "count_calls ''step'' inspect_calls = 0" "count_calls ''print'' inspect_calls = 2"
  by (simp_all add: count_calls_def data_calls_def model_calls_def inspect_calls_def call_defs)

lemma count_preview:
  "count_calls ''__iter__'' (preview_calls lib) = 1"
  "count_calls ''__next__'' (preview_calls lib) = 1"
  "count_calls ''step'' (preview_calls lib) = 0"
  "count_calls ''print'' (preview_calls lib) = (if 0 < lib_batches lib 0 then 1 else 0)"
  by (simp_all add: count_calls_def preview_calls_def call_defs)

lemma count_schedule:
  "count_calls ''__iter__'' (schedule lib) = 4"
  "count_calls ''__next__'' (schedule lib) =
     4 + (lib_batches lib 1 + lib_batches lib 2 + lib_batches lib 3)"
  "count_calls ''step'' (schedule lib) = lib_batches lib 1 + lib_batches lib 2 + lib_batches lib 3"
  "count_calls ''print'' (schedule lib) = (if 0 < lib_batches lib 0 then 6 else 5)"
  by (simp_all add: schedule_def count_append count_fixed count_preview count_epoch)

text \<open>
  Claim C4, as the specification has it: the only control flow of the notebook's own is
  the training loop of 3 epochs, and there is no other loop, branch or conditional. Cell 3
  is another loop, with a \<open>break\<close>: in a run where every iteration yields two
  mini-batches the loader is iterated four times, not three, and the calls number 7 to 9,
  made before the model exists, start an iteration, take a mini-batch and print it; in a
  run where the loader yields nothing the \<open>print\<close> is not made.
\<close>

theorem notebook_loops_counterexample:
  "count_calls ''__iter__'' (trace (notebook lib2)) = 4 \<and>
   take 3 (drop 6 (trace (notebook lib2))) =
     [iterator loader, batch loader, print [batch_X loader, batch_y loader]] \<and>
   take 3 (drop 6 (trace (notebook lib0))) =
     [iterator loader, batch loader, import ''mxnet.gluon'']"
proof -
  have "trace (notebook lib2) = schedule lib2" and "trace (notebook lib0) = schedule lib0"
    by (simp_all add: trace_notebook_quiet quiet_lib2 quiet_lib0)
  moreover have "take 3 (drop 6 (schedule lib2)) =
     [iterator loader, batch loader, print [batch_X loader, batch_y loader]]"
    by (simp add: schedule_def data_calls_def preview_calls_def lib2_def)
  moreover have "take 3 (drop 6 (schedule lib0)) =
     [iterator loader, batch loader, import ''mxnet.gluon'']"
    by (simp add: schedule_def data_calls_def preview_calls_def model_calls_def lib0_def)
  ultimately show ?thesis
    by (simp add: count_schedule)
qed

text \<open>
  Claim C4, amended: the notebook is a single-pass script with two loops of its own. The
  loop of cell 3 starts an iteration over the data loader, takes its first mini-batch,
  prints it and leaves by \<open>break\<close>: its body runs once, or not at all when the loader
  yields nothing. The training loop of cell 9 runs a fixed number of 3 epochs, each a
  whole pass over the data loader with one step of the trainer for every mini-batch.
  Every run is an initial segment of the calls written out in \<open>schedule\<close>, and the
  whole of it when no call raises: four iterations over the loader, one step for each
  mini-batch of the three epochs, and one \<open>print\<close> for the preview (if it has a
  mini-batch), one for each epoch and two for the parameters.
\<close>

theorem notebook_loops:
  "prefix (trace (notebook lib)) (schedule lib) \<and>
   (quiet lib \<longrightarrow>
      trace (notebook lib) = schedule lib \<and>
      count_calls ''__iter__'' (trace (notebook lib)) = 1 + num_epochs \<and>
      count_calls ''step'' (trace (notebook lib)) =
        lib_batches lib 1 + lib_batches lib 2 + lib_batches lib 3 \<and>
      count_calls ''print'' (trace (notebook lib)) =
        (if 0 < lib_batches lib 0 then 1 else 0) + num_epochs + 2)"
  by (simp add: prefix_trace_schedule trace_notebook_quiet count_schedule num_epochs_def)

theorem notebook_loops_witness:
  "quiet lib2 \<and> count_calls ''__iter__'' (trace (notebook lib2)) = 4 \<and>
   count_calls ''step'' (trace (notebook lib2)) = 6 \<and>
   count_calls ''print'' (trace (notebook lib2)) = 6"
proof -
  from notebook_loops [of lib2] quiet_lib2
  have "count_calls ''__iter__'' (trace (notebook lib2)) = 1 + num_epochs"
    and "count_calls ''step'' (trace (notebook lib2)) =
        lib_batches lib2 1 + lib_batches lib2 2 + lib_batches lib2 3"
    and "count_calls ''print'' (trace (notebook lib2)) =
        (if 0 < lib_batches lib2 0 then 1 else 0) + num_epochs + 2"
    by blast+
  moreover have "lib_batches lib2 k = 2" for k
    by (simp add: lib2_def)
  ultimately show ?thesis
    by (simp add: quiet_lib2 num_epochs_def)
qed

end
